theory Spec2Isabelle
  imports Complex_Main
begin

section \<open>JavaScript values, objects and the heap\<close>

text \<open>
  The logger of \<^verbatim>\<open>src/logger.js\<close> and the queue connection manager of
  \<^verbatim>\<open>src/rabbitmq-lib.js\<close> are embedded as HOL functions. A JavaScript value is a
  primitive or a reference to an object on the heap. An object is the list of its own
  enumerable properties, in the order \<^verbatim>\<open>for ... in\<close> enumerates them, the list of its
  properties that are not enumerable (the \<^verbatim>\<open>message\<close> and \<^verbatim>\<open>stack\<close> of an
  \<^verbatim>\<open>Error\<close>), and what its \<^verbatim>\<open>toString()\<close> method returns (\<open>None\<close> for an object
  without a callable one, as \<^verbatim>\<open>Object.create(null)\<close>). Numbers are kept exact (the
  rounding of IEEE doubles is not modelled), and a string is a list of bytes.
\<close>

datatype jsval = JUndefined | JNull | JBool bool | JNum real | JStr string | JRef nat

record jsobj =
  props :: "(string \<times> jsval) list"
  hidden :: "(string \<times> jsval) list"
  toStr :: "string option"

type_synonym heap = "jsobj list"

text \<open>Truthiness, as \<^verbatim>\<open>if (x)\<close>, \<^verbatim>\<open>x || y\<close> and \<^verbatim>\<open>x && y\<close> test it.\<close>

fun truthy :: "jsval \<Rightarrow> bool" where
  "truthy JUndefined = False"
| "truthy JNull = False"
| "truthy (JBool b) = b"
| "truthy (JNum r) = (r \<noteq> 0)"
| "truthy (JStr s) = (s \<noteq> [])"
| "truthy (JRef a) = True"

definition js_or :: "jsval \<Rightarrow> jsval \<Rightarrow> jsval" where
  "js_or a b = (if truthy a then a else b)"

fun nullish :: "jsval \<Rightarrow> bool" where
  "nullish JUndefined = True"
| "nullish JNull = True"
| "nullish v = False"

text \<open>
  Reading \<^verbatim>\<open>o[k]\<close> from a property list gives \<^verbatim>\<open>undefined\<close> for a missing key.
  Assigning \<^verbatim>\<open>o[k] = v\<close> replaces the value of an existing key in place and appends a
  new key; the key \<^verbatim>\<open>__proto__\<close> is the accessor inherited from
  \<^verbatim>\<open>Object.prototype\<close>, so that assignment creates no own property.
\<close>

fun lookup_prop :: "(string \<times> jsval) list \<Rightarrow> string \<Rightarrow> jsval" where
  "lookup_prop [] k = JUndefined"
| "lookup_prop ((k', v) # ps) k = (if k' = k then v else lookup_prop ps k)"

fun assign_prop :: "(string \<times> jsval) list \<Rightarrow> string \<Rightarrow> jsval \<Rightarrow> (string \<times> jsval) list" where
  "assign_prop [] k v = [(k, v)]"
| "assign_prop ((k', v') # ps) k v =
     (if k' = k then (k, v) # ps else (k', v') # assign_prop ps k v)"

definition set_prop :: "(string \<times> jsval) list \<Rightarrow> string \<Rightarrow> jsval \<Rightarrow> (string \<times> jsval) list" where
  "set_prop ps k v = (if k = ''__proto__'' then ps else assign_prop ps k v)"

text \<open>Decimal digits of a natural number, as string concatenation prints an integer.\<close>

function show_nat :: "nat \<Rightarrow> string" where
  "show_nat n =
     (if n < 10 then [''0123456789'' ! n]
      else show_nat (n div 10) @ [''0123456789'' ! (n mod 10)])"
  by pat_completeness auto
termination
  by (relation "measure id") auto

declare show_nat.simps [simp del]

text \<open>
  The entries \<^verbatim>\<open>for (let key in v)\<close> visits, each with \<^verbatim>\<open>v[key]\<close>: the own properties
  of an object, the indices of a primitive string, nothing for any other primitive.
\<close>

definition for_in :: "heap \<Rightarrow> jsval \<Rightarrow> (string \<times> jsval) list" where
  "for_in h v =
     (case v of
        JRef a \<Rightarrow> (if a < length h then props (h ! a) else [])
      | JStr s \<Rightarrow> map (\<lambda>i. (show_nat i, JStr [s ! i])) [0..<length s]
      | _ \<Rightarrow> [])"

section \<open>The platform\<close>

text \<open>
  What the code reads from outside its arguments: the clock (\<^verbatim>\<open>Date.now()\<close>, in
  milliseconds), the host name (\<^verbatim>\<open>os.hostname()\<close>), the locale's date formatting
  (\<^verbatim>\<open>new Date(t).toLocaleString()\<close>), how a number prints, the \<^verbatim>\<open>TypeError\<close> object the
  runtime creates when the named expression fails, and the two libraries the transports
  call: how the promise of \<^verbatim>\<open>axios.post(url, record, options)\<close> settles, what
  \<^verbatim>\<open>JSON.stringify(record)\<close> gives (the text, or the value it throws, as for a cyclic
  record or a \<^verbatim>\<open>toJSON\<close> that throws), and what amqplib's
  \<^verbatim>\<open>channel.sendToQueue(queue, payload, {persistent: true}, callback)\<close> does with that
  text (it throws, it calls back with the broker's confirmation, \<^verbatim>\<open>null\<close> for an
  acknowledgment and an error otherwise, or it never calls back).
\<close>

datatype promise = Resolved | Rejected jsval | Pending

datatype publish = Throws jsval | Callback jsval | NoCallback

record env =
  now :: nat
  hostname :: string
  toLocaleString :: "nat \<Rightarrow> string"
  numberToString :: "real \<Rightarrow> string"
  typeError :: "string \<Rightarrow> jsobj"
  axiosPost :: "jsval \<Rightarrow> (string \<times> jsval) list \<Rightarrow> promise"
  jsonStringify :: "heap \<Rightarrow> (string \<times> jsval) list \<Rightarrow> jsval + string"
  sendToQueue :: "nat \<Rightarrow> jsval \<Rightarrow> string \<Rightarrow> publish"

section \<open>Configuration\<close>

record config =
  transport :: jsval
  env_tag :: jsval
  appName :: jsval
  httpUrl :: jsval
  httpAuthUsername :: jsval
  httpAuthPassword :: jsval
  httpTimeout :: jsval
  amqpHost :: jsval
  amqpPort :: jsval
  amqpUser :: jsval
  amqpPassword :: jsval
  amqpQueue :: jsval
  amqpRetryDelay :: jsval

section \<open>The log record builder\<close>

text \<open>
  \<^verbatim>\<open>.replace(/( AM| PM)/, '.' + ms + '$1')\<close>: the first occurrence of \<^verbatim>\<open>" AM"\<close> or
  \<^verbatim>\<open>" PM"\<close> gets the text \<^verbatim>\<open>'.' + ms\<close> in front of it; without one the string is
  unchanged.
\<close>

fun replace_am_pm :: "string \<Rightarrow> string \<Rightarrow> string" where
  "replace_am_pm [] ms = []"
| "replace_am_pm (c # cs) ms =
     (if take 3 (c # cs) = '' AM'' \<or> take 3 (c # cs) = '' PM''
      then ''.'' @ ms @ (c # cs)
      else c # replace_am_pm cs ms)"

text \<open>Copying the entries of \<open>src\<close> into \<open>acc\<close> under a prefix, as the \<^verbatim>\<open>for ... in\<close> loops do.\<close>

definition copy_prefixed ::
  "string \<Rightarrow> (string \<times> jsval) list \<Rightarrow> (string \<times> jsval) list \<Rightarrow> (string \<times> jsval) list" where
  "copy_prefixed pre src acc = fold (\<lambda>(d, v) acc. set_prop acc (pre @ d) v) src acc"

definition getLogObject ::
  "env \<Rightarrow> heap \<Rightarrow> jsval \<Rightarrow> jsval \<Rightarrow> jsval \<Rightarrow> jsval \<Rightarrow> config \<Rightarrow> (string \<times> jsval) list" where
  "getLogObject e h shortMessage fullMessage data level cfg =
     (let timestamp = now e;
          obj = [(''version'', JStr ''1.1''),
                 (''host'', JStr (hostname e)),
                 (''timestamp'', JNum (real timestamp / 1000)),
                 (''short_message'', shortMessage),
                 (''full_message'', fullMessage),
                 (''level'', level),
                 (''_env'', env_tag cfg),
                 (''_localeDate'',
                    JStr (replace_am_pm (toLocaleString e timestamp) (show_nat (timestamp mod 1000)))),
                 (''_app_name'', appName cfg)]
      in copy_prefixed ''_'' (for_in h data) obj)"

section \<open>Effects\<close>

text \<open>
  The state the code works on is the heap and the list of what it has done so far, in
  order: lines written to the local console sinks, calls of the configured transport
  (\<^verbatim>\<open>this.sendLog(logObject)\<close>), the library calls behind them, a promise rejection
  that nothing handles, and what the connection manager asks of amqplib and of the timer
  (connections and channels are numbered; \<open>AssertQueue\<close> carries the channel, the queue
  and the \<^verbatim>\<open>durable\<close> option, \<open>SendToQueue\<close> the channel, the queue and the JSON text).
\<close>

datatype sink = LogSink | InfoSink | WarnSink | ErrorSink

datatype carg = Text string | Val jsval | Rec "(string \<times> jsval) list"

record http_options =
  contentType :: string
  proxy :: bool
  timeout :: jsval
  auth :: "(jsval \<times> jsval) option"

record rabbit_config =
  rc_hostname :: jsval
  rc_port :: jsval
  rc_username :: jsval
  rc_password :: jsval
  rc_queue :: jsval
  rc_retryDelay :: jsval
  rc_protocol :: string
  rc_heartbeat :: nat

datatype event =
    Console sink "carg list"
  | SendLog "(string \<times> jsval) list"
  | AxiosPost jsval "(string \<times> jsval) list" http_options
  | SendToQueue nat jsval string
  | UnhandledRejection jsval
  | AmqpConnect rabbit_config
  | CreateConfirmChannel nat
  | AssertQueue nat jsval bool
  | OnError nat
  | OnClose nat
  | SetTimeout jsval
  | ChannelClose nat
  | ConnectionClose nat

record world =
  heap :: heap
  events :: "event list"

definition emit :: "event \<Rightarrow> world \<Rightarrow> world" where
  "emit ev w = w\<lparr>events := events w @ [ev]\<rparr>"

definition alloc :: "jsobj \<Rightarrow> world \<Rightarrow> jsval \<times> world" where
  "alloc ob w = (JRef (length (heap w)), w\<lparr>heap := heap w @ [ob]\<rparr>)"

definition plain :: "(string \<times> jsval) list \<Rightarrow> jsobj" where
  "plain ps = \<lparr>props = ps, hidden = [], toStr = Some ''[object Object]''\<rparr>"

text \<open>A parameter default \<^verbatim>\<open>data = {}\<close>: a new object when the argument is \<^verbatim>\<open>undefined\<close>.\<close>

definition default_obj :: "jsval \<Rightarrow> world \<Rightarrow> jsval \<times> world" where
  "default_obj v w = (if v = JUndefined then alloc (plain []) w else (v, w))"

text \<open>The runtime throws a new \<^verbatim>\<open>TypeError\<close>; the thrown value is \<open>Inl\<close> of a result.\<close>

definition throwTypeError :: "env \<Rightarrow> string \<Rightarrow> world \<Rightarrow> (jsval + 'a) \<times> world" where
  "throwTypeError e site w = (case alloc (typeError e site) w of (x, w') \<Rightarrow> (Inl x, w'))"

text \<open>
  Reading \<^verbatim>\<open>v.k\<close> where \<open>v\<close> is not \<^verbatim>\<open>null\<close> or \<^verbatim>\<open>undefined\<close> (the callers check
  that first and throw): an own property of an object, \<^verbatim>\<open>undefined\<close> otherwise. None of
  the names the code reads this way is a member of a built-in prototype.
\<close>

definition get_prop :: "heap \<Rightarrow> jsval \<Rightarrow> string \<Rightarrow> jsval" where
  "get_prop h v k =
     (case v of
        JRef a \<Rightarrow>
          (if a < length h
           then (case map_of (props (h ! a)) k of
                   Some x \<Rightarrow> x
                 | None \<Rightarrow> lookup_prop (hidden (h ! a)) k)
           else JUndefined)
      | _ \<Rightarrow> JUndefined)"

text \<open>
  Conversion to a string, as a template literal, \<^verbatim>\<open>String(v)\<close> and a computed property
  key do it; \<open>None\<close> when the conversion throws.
\<close>

definition to_str :: "env \<Rightarrow> heap \<Rightarrow> jsval \<Rightarrow> string option" where
  "to_str e h v =
     (case v of
        JUndefined \<Rightarrow> Some ''undefined''
      | JNull \<Rightarrow> Some ''null''
      | JBool b \<Rightarrow> Some (if b then ''true'' else ''false'')
      | JNum r \<Rightarrow> Some (numberToString e r)
      | JStr s \<Rightarrow> Some s
      | JRef a \<Rightarrow> (if a < length h then toStr (h ! a) else None))"

text \<open>
  \<^verbatim>\<open>toLowerCase()\<close> on the letters A to Z; every other byte is kept. (Outside ASCII,
  JavaScript lowers only the Kelvin sign and the dotted capital I to text with an ASCII
  letter, \<open>k\<close> and \<open>i\<close>; neither letter occurs in a transport name.)
\<close>

definition upper_letters :: string where
  "upper_letters = ''ABCDEFGHIJKLMNOPQRSTUVWXYZ''"

definition lower_letters :: string where
  "lower_letters = ''abcdefghijklmnopqrstuvwxyz''"

definition toLowerChar :: "char \<Rightarrow> char" where
  "toLowerChar c =
     (case map_of (zip upper_letters lower_letters) c of
        Some d \<Rightarrow> d
      | None \<Rightarrow> c)"

definition toLowerCase :: "string \<Rightarrow> string" where
  "toLowerCase s = map toLowerChar s"

section \<open>The queue connection manager: state and \<^verbatim>\<open>sendMessage\<close>\<close>

record rabbit =
  rconfig :: rabbit_config
  connection :: "nat option"
  channel :: "nat option"
  queue :: jsval
  retryDelay :: jsval
  isConnected :: bool

definition RabbitMQ :: "jsval \<Rightarrow> jsval \<Rightarrow> jsval \<Rightarrow> jsval \<Rightarrow> jsval \<Rightarrow> jsval \<Rightarrow> rabbit" where
  "RabbitMQ host port user password q delay =
     \<lparr>rconfig = \<lparr>rc_hostname = host, rc_port = port, rc_username = user,
                 rc_password = password, rc_queue = q, rc_retryDelay = delay,
                 rc_protocol = ''amqp'', rc_heartbeat = 60\<rparr>,
      connection = None,
      channel = None,
      queue = js_or q (JStr ''default_queue''),
      retryDelay = js_or delay (JNum 1000),
      isConnected = False\<rparr>"

text \<open>
  \<^verbatim>\<open>sendMessage\<close>. Inside the promise's executor, \<^verbatim>\<open>this.channel.sendToQueue\<close> is
  looked up first and throws with no channel; then the payload
  \<^verbatim>\<open>Buffer.from(JSON.stringify(message))\<close> is built, which throws what
  \<^verbatim>\<open>JSON.stringify\<close> throws; a throw in the executor rejects the promise and the channel
  is not called. Otherwise the channel is called and the promise settles as the callback
  says: rejected with a truthy \<open>err\<close>, resolved with a falsy one. The flag
  \<^verbatim>\<open>isConnected\<close> is not read.
\<close>

definition sendMessage :: "env \<Rightarrow> rabbit \<Rightarrow> (string \<times> jsval) list \<Rightarrow> world \<Rightarrow> promise \<times> world" where
  "sendMessage e r message w =
     (case channel r of
        None \<Rightarrow>
          (case alloc (typeError e ''this.channel.sendToQueue'') w of
             (x, w') \<Rightarrow> (Rejected x, w'))
      | Some ch \<Rightarrow>
          (case jsonStringify e (heap w) message of
             Inl x \<Rightarrow> (Rejected x, w)
           | Inr payload \<Rightarrow>
               (let w' = emit (SendToQueue ch (queue r) payload) w
                in case sendToQueue e ch (queue r) payload of
                     Throws x \<Rightarrow> (Rejected x, w')
                   | Callback err \<Rightarrow> (if truthy err then Rejected err else Resolved, w')
                   | NoCallback \<Rightarrow> (Pending, w'))))"

section \<open>The logger: construction and \<^verbatim>\<open>report\<close>\<close>

datatype send_kind = ViaHttp http_options | ViaAmqp | ViaConsole

record logger =
  lconfig :: config
  sendLogKind :: send_kind
  rabbitMQ :: "rabbit option"

definition EMERGENCY :: jsval where "EMERGENCY = JNum 0"
definition ALERT :: jsval where "ALERT = JNum 1"
definition CRITICAL :: jsval where "CRITICAL = JNum 2"
definition ERROR :: jsval where "ERROR = JNum 3"
definition WARNING :: jsval where "WARNING = JNum 4"
definition NOTICE :: jsval where "NOTICE = JNum 5"
definition INFORMATIONAL :: jsval where "INFORMATIONAL = JNum 6"
definition DEBUG :: jsval where "DEBUG = JNum 7"

text \<open>
  The constructor. \<^verbatim>\<open>String(config.transport)\<close> throws for an object that cannot be
  converted; otherwise the lower-cased text is kept when it is one of the three transport
  names, and replaced by \<^verbatim>\<open>'console'\<close> after one \<^verbatim>\<open>console.warn\<close> when it is not.
\<close>

definition Logger :: "env \<Rightarrow> config \<Rightarrow> world \<Rightarrow> (jsval + logger) \<times> world" where
  "Logger e cfg w =
     (case to_str e (heap w) (transport cfg) of
        None \<Rightarrow> throwTypeError e ''String(config.transport)'' w
      | Some s \<Rightarrow>
          (let t = toLowerCase s;
               valid = (t \<in> set [''http'', ''amqp'', ''console'']);
               w1 = (if valid then w
                     else emit (Console WarnSink
                            [Text (''Invalid transport config '' @ [CHR 0x22] @ t @ [CHR 0x22]
                                   @ '', transport set to '' @ [CHR 0x22] @ ''console'' @ [CHR 0x22])]) w);
               t1 = (if valid then t else ''console'');
               cfg1 = cfg\<lparr>transport := JStr t1\<rparr>
           in (Inr \<lparr>lconfig = cfg1,
                    sendLogKind =
                      (if t1 = ''http''
                       then ViaHttp \<lparr>contentType = ''application/json; charset=utf-8'',
                                     proxy = False,
                                     timeout = js_or (httpTimeout cfg1) (JNum 2000),
                                     auth = (if truthy (httpAuthUsername cfg1) \<and> truthy (httpAuthPassword cfg1)
                                             then Some (httpAuthUsername cfg1, httpAuthPassword cfg1)
                                             else None)\<rparr>
                       else if t1 = ''amqp'' then ViaAmqp
                       else ViaConsole),
                    rabbitMQ =
                      (if t1 = ''amqp''
                       then Some (RabbitMQ (js_or (amqpHost cfg1) (JStr ''127.0.0.1''))
                                           (js_or (amqpPort cfg1) (JNum 5672))
                                           (js_or (amqpUser cfg1) (JStr ''guest''))
                                           (js_or (amqpPassword cfg1) (JStr ''guest''))
                                           (js_or (amqpQueue cfg1) (JStr ''default_queue''))
                                           (js_or (amqpRetryDelay cfg1) (JNum 1000)))
                       else None)\<rparr>, w1)))"

text \<open>
  \<^verbatim>\<open>this.sendLog\<close>, as the constructor sets it for the three transports. The console
  transport writes the record to \<^verbatim>\<open>console.info\<close> at level 6 and to
  \<^verbatim>\<open>console.error\<close> otherwise, and returns at once.
\<close>

definition sendLog :: "env \<Rightarrow> logger \<Rightarrow> (string \<times> jsval) list \<Rightarrow> world \<Rightarrow> promise \<times> world" where
  "sendLog e lg logObject w =
     (case sendLogKind lg of
        ViaHttp opts \<Rightarrow>
          (axiosPost e (httpUrl (lconfig lg)) logObject,
           emit (AxiosPost (httpUrl (lconfig lg)) logObject opts) w)
      | ViaAmqp \<Rightarrow>
          (case rabbitMQ lg of
             Some r \<Rightarrow> sendMessage e r logObject w
           | None \<Rightarrow>
               (case alloc (typeError e ''_this.rabbitMQ.sendMessage'') w of
                  (x, w') \<Rightarrow> (Rejected x, w')))
      | ViaConsole \<Rightarrow>
          (Resolved,
           emit (Console (if lookup_prop logObject ''level'' = INFORMATIONAL then InfoSink else ErrorSink)
                   [Rec logObject]) w))"

text \<open>
  \<^verbatim>\<open>report\<close>. The record is built, the transport is called, and the promise resolves
  when the transport's promise is fulfilled. When it is rejected (or the transport throws),
  the handler builds its message from \<^verbatim>\<open>logObject.short_message\<close>, \<^verbatim>\<open>error.stack\<close> and
  \<^verbatim>\<open>logObject.full_message\<close>, writes it with \<open>data\<close> to \<^verbatim>\<open>console.error\<close> and
  resolves. Building the message throws when \<open>error\<close> is \<^verbatim>\<open>null\<close> or
  \<^verbatim>\<open>undefined\<close> (\<^verbatim>\<open>error.stack\<close> cannot be read) or when one of the three values has no
  string form; that happens inside the handler: the \<^verbatim>\<open>async\<close> executor's own
  promise is rejected with nobody listening, \<^verbatim>\<open>resolve\<close> is never called, and the
  promise \<^verbatim>\<open>report\<close> returned stays pending. The continuation after \<^verbatim>\<open>await\<close> is run
  at once: the model orders the effects of one \<^verbatim>\<open>report\<close> before those of the next.
\<close>

definition report ::
  "env \<Rightarrow> logger \<Rightarrow> jsval \<Rightarrow> jsval \<Rightarrow> jsval \<Rightarrow> jsval \<Rightarrow> world \<Rightarrow> promise \<times> world" where
  "report e lg shortMessage fullMessage data0 level0 w0 =
     (case default_obj data0 w0 of (data, w) \<Rightarrow>
      let level = (if level0 = JUndefined then ALERT else level0);
          logObject = getLogObject e (heap w) shortMessage fullMessage data level (lconfig lg)
      in case sendLog e lg logObject (emit (SendLog logObject) w) of
           (Resolved, w1) \<Rightarrow> (Resolved, w1)
         | (Pending, w1) \<Rightarrow> (Pending, w1)
         | (Rejected err, w1) \<Rightarrow>
             (case (if nullish err then None
                    else case to_str e (heap w1) (lookup_prop logObject ''short_message'') of
                           None \<Rightarrow> None
                         | Some sm \<Rightarrow>
                        (case to_str e (heap w1) (get_prop (heap w1) err ''stack'') of
                           None \<Rightarrow> None
                         | Some st \<Rightarrow>
                        (case to_str e (heap w1) (lookup_prop logObject ''full_message'') of
                           None \<Rightarrow> None
                         | Some fm \<Rightarrow>
                             Some (''Cannot report error: '' @ sm @ [CHR 0x0A, CHR 0x0A]
                                   @ ''    Because of: '' @ st @ [CHR 0x0A, CHR 0x0A]
                                   @ ''    Main error: '' @ fm @ [CHR 0x0A, CHR 0x0A]
                                   @ ''    Data: '')))) of
                Some text \<Rightarrow> (Resolved, emit (Console ErrorSink [Text text, Val data]) w1)
              | None \<Rightarrow>
                  (case alloc (typeError e ''template literal'') w1 of
                     (x, w2) \<Rightarrow> (Pending, emit (UnhandledRejection x) w2))))"

section \<open>Enriching the data of an error report\<close>

text \<open>\<^verbatim>\<open>s.split(c)\<close> for a separator of one character: never an empty list.\<close>

fun split_on :: "char \<Rightarrow> string \<Rightarrow> string list" where
  "split_on c [] = [[]]"
| "split_on c (x # xs) =
     (if x = c then [] # split_on c xs
      else (case split_on c xs of
              [] \<Rightarrow> [[x]]
            | p # ps \<Rightarrow> (x # p) # ps))"

definition nth_opt :: "'a list \<Rightarrow> nat \<Rightarrow> 'a option" where
  "nth_opt xs i = (if i < length xs then Some (xs ! i) else None)"

text \<open>
  \<^verbatim>\<open>error.stack.split('\n')[1].split('(')[1].split(':')\<close>, or \<open>None\<close> when one of the
  steps throws: \<open>error\<close> is \<^verbatim>\<open>null\<close> or \<^verbatim>\<open>undefined\<close>, the stack is not a string, it
  has no second line, or that line has no opening parenthesis.
\<close>

definition stack_parts :: "heap \<Rightarrow> jsval \<Rightarrow> string list option" where
  "stack_parts h error =
     (if nullish error then None
      else case get_prop h error ''stack'' of
             JStr st \<Rightarrow>
               (case nth_opt (split_on (CHR 0x0A) st) 1 of
                  None \<Rightarrow> None
                | Some line \<Rightarrow>
                    (case nth_opt (split_on CHR ''('' line) 1 of
                       None \<Rightarrow> None
                     | Some piece \<Rightarrow> Some (split_on CHR '':'' piece)))
           | _ \<Rightarrow> None)"

definition update_obj ::
  "nat \<Rightarrow> ((string \<times> jsval) list \<Rightarrow> (string \<times> jsval) list) \<Rightarrow> world \<Rightarrow> world" where
  "update_obj a f w =
     (if a < length (heap w)
      then w\<lparr>heap := (heap w)[a := (heap w ! a)\<lparr>props := f (props (heap w ! a))\<rparr>]\<rparr>
      else w)"

text \<open>
  \<^verbatim>\<open>appendErrLocData\<close> assigns \<^verbatim>\<open>data.errFile\<close> and \<^verbatim>\<open>data.errLine\<close> on the object it
  was given and returns it. Everything is inside \<^verbatim>\<open>try\<close>: when the stack does not parse,
  or \<open>data\<close> is not an object (the assignment throws in strict mode), \<open>data\<close> is
  returned as it is. The error caught there is dropped and is not put on the heap.
\<close>

definition appendErrLocData :: "jsval \<Rightarrow> jsval \<Rightarrow> world \<Rightarrow> jsval \<times> world" where
  "appendErrLocData error data0 w0 =
     (case default_obj data0 w0 of (data, w) \<Rightarrow>
        (case stack_parts (heap w) error of
           None \<Rightarrow> (data, w)
         | Some [] \<Rightarrow> (data, w)
         | Some (file # rest) \<Rightarrow>
             (case data of
                JRef a \<Rightarrow>
                  (data,
                   update_obj a
                     (\<lambda>ps. set_prop (set_prop ps ''errFile'' (JStr file)) ''errLine''
                             (case rest of [] \<Rightarrow> JUndefined | line # _ \<Rightarrow> JStr line)) w)
              | _ \<Rightarrow> (data, w))))"

definition appendErrAxiosData :: "jsval \<Rightarrow> jsval \<Rightarrow> world \<Rightarrow> jsval \<times> world" where
  "appendErrAxiosData error data0 w0 =
     (case default_obj data0 w0 of (data, w) \<Rightarrow>
        (if nullish error then (data, w)
         else
           let h = heap w; response = get_prop h error ''response''
           in if \<not> truthy response then (data, w)
              else
                (case data of
                   JRef a \<Rightarrow>
                     (data,
                      update_obj a
                        (\<lambda>ps.
                           let ps1 = set_prop ps ''axiosStatus'' (get_prop h response ''status'');
                               ps2 = set_prop ps1 ''axiosStatusText'' (get_prop h response ''statusText'');
                               ps3 = set_prop ps2 ''axiosResponseData'' (get_prop h response ''data'');
                               ps4 = (if truthy (get_prop h response ''config'')
                                      then set_prop ps3 ''axiosUrl''
                                             (get_prop h (get_prop h response ''config'') ''url'')
                                      else ps3)
                           in if truthy (get_prop h response ''request'')
                              then set_prop
                                     (set_prop ps4 ''axiosMethod''
                                        (get_prop h (get_prop h response ''request'') ''method''))
                                     ''axiosPath''
                                     (get_prop h (get_prop h response ''request'') ''path'')
                              else ps4) w)
                 | _ \<Rightarrow> (data, w))))"

text \<open>\<^verbatim>\<open>{ ...a, ...b }\<close>: a new object with the entries of \<open>a\<close>, then those of \<open>b\<close>.\<close>

definition spread2 :: "heap \<Rightarrow> jsval \<Rightarrow> jsval \<Rightarrow> (string \<times> jsval) list" where
  "spread2 h a b = fold (\<lambda>(k, v) acc. assign_prop acc k v) (for_in h a @ for_in h b) []"

definition getApiRequestData :: "env \<Rightarrow> jsval \<Rightarrow> jsval \<Rightarrow> world \<Rightarrow> (jsval + jsval) \<times> world" where
  "getApiRequestData e req etc w =
     (if nullish req then throwTypeError e ''req.method'' w
      else
        let h = heap w;
            d0 = [(''method'', get_prop h req ''method''),
                  (''baseUrl'', get_prop h req ''__BASE_URL''),
                  (''originalUrl'', get_prop h req ''originalUrl''),
                  (''ip'', get_prop h req ''ip'')];
            d1 = (if truthy (get_prop h req ''auth'')
                  then set_prop d0 ''userId'' (get_prop h (get_prop h req ''auth'') ''id'')
                  else d0);
            d2 = (if get_prop h req ''method'' = JStr ''POST''
                  then copy_prefixed ''POST_'' (for_in h (get_prop h req ''body'')) d1
                  else if get_prop h req ''method'' = JStr ''GET''
                  then copy_prefixed ''GET_'' (for_in h (get_prop h req ''query'')) d1
                  else d1);
            d3 = (if truthy etc then copy_prefixed ''DATA_'' (for_in h etc) d2 else d2)
        in case alloc (plain d3) w of (x, w') \<Rightarrow> (Inr x, w'))"

definition getSocketRequestData ::
  "env \<Rightarrow> jsval \<Rightarrow> jsval \<Rightarrow> jsval \<Rightarrow> world \<Rightarrow> (jsval + jsval) \<times> world" where
  "getSocketRequestData e socket req etc w =
     (let h = heap w in
      if nullish socket then throwTypeError e ''socket.id'' w
      else if nullish (get_prop h socket ''request'') then throwTypeError e ''socket.request.headers'' w
      else if nullish (get_prop h (get_prop h socket ''request'') ''headers'')
      then throwTypeError e ''socket.request.headers[x-forwarded-for]'' w
      else
        let d0 = [(''socketId'', get_prop h socket ''id''),
                  (''ip'', js_or (get_prop h (get_prop h (get_prop h socket ''request'') ''headers'')
                                   ''x-forwarded-for'')
                                 (get_prop h socket ''remoteAddress''))];
            d1 = (if truthy (get_prop h socket ''authToken'')
                     \<and> truthy (get_prop h (get_prop h socket ''authToken'') ''id'')
                  then set_prop d0 ''userId'' (get_prop h (get_prop h socket ''authToken'') ''id'')
                  else d0);
            d2 = (if truthy req then copy_prefixed ''REQ_'' (for_in h req) d1 else d1);
            d3 = (if truthy etc then copy_prefixed ''DATA_'' (for_in h etc) d2 else d2)
        in case alloc (plain d3) w of (x, w') \<Rightarrow> (Inr x, w'))"

section \<open>The error reporters\<close>

text \<open>\<^verbatim>\<open>error.toString()\<close>: throws for \<^verbatim>\<open>null\<close>, \<^verbatim>\<open>undefined\<close> and an object without the method.\<close>

definition call_toString :: "env \<Rightarrow> jsval \<Rightarrow> world \<Rightarrow> (jsval + string) \<times> world" where
  "call_toString e v w =
     (if nullish v then throwTypeError e ''error.toString'' w
      else case to_str e (heap w) v of
             Some s \<Rightarrow> (Inr s, w)
           | None \<Rightarrow> throwTypeError e ''error.toString'' w)"


definition reportGeneralError ::
  "env \<Rightarrow> logger \<Rightarrow> jsval \<Rightarrow> jsval \<Rightarrow> jsval \<Rightarrow> world \<Rightarrow> (jsval + promise option) \<times> world" where
  "reportGeneralError e lg error data0 level0 w0 =
     (case default_obj data0 w0 of (data, w) \<Rightarrow>
      let level = (if level0 = JUndefined then ERROR else level0)
      in case call_toString e error w of
           (Inl x, w1) \<Rightarrow> (Inl x, w1)
         | (Inr s, w1) \<Rightarrow>
             (case appendErrLocData error data w1 of (d, w2) \<Rightarrow>
                (case report e lg (JStr s) (get_prop (heap w1) error ''stack'') d level w2 of
                   (p, w3) \<Rightarrow> (Inr (Some p), w3))))"

text \<open>
  The reporters with a request context build a new object from \<^verbatim>\<open>error.etc\<close> and
  \<open>data\<close>, hand it to \<^verbatim>\<open>getApiRequestData\<close> or \<^verbatim>\<open>getSocketRequestData\<close>, which
  builds one more, and enrich that one.
\<close>

definition report_with_context ::
  "env \<Rightarrow> logger \<Rightarrow> jsval \<Rightarrow> jsval
   \<Rightarrow> (jsval \<Rightarrow> world \<Rightarrow> (jsval + jsval) \<times> world)
   \<Rightarrow> (jsval \<Rightarrow> jsval \<Rightarrow> world \<Rightarrow> jsval \<times> world)
   \<Rightarrow> (heap \<Rightarrow> jsval) \<Rightarrow> world \<Rightarrow> (jsval + promise option) \<times> world" where
  "report_with_context e lg error data0 getData enrich level w0 =
     (case default_obj data0 w0 of (data, w) \<Rightarrow>
        (case call_toString e error w of
           (Inl x, w1) \<Rightarrow> (Inl x, w1)
         | (Inr s, w1) \<Rightarrow>
             (case alloc (plain (spread2 (heap w1) (get_prop (heap w1) error ''etc'') data)) w1 of
                (etc, w2) \<Rightarrow>
                  (case getData etc w2 of
                     (Inl x, w3) \<Rightarrow> (Inl x, w3)
                   | (Inr d, w3) \<Rightarrow>
                       (case enrich error d w3 of (d', w4) \<Rightarrow>
                          (case report e lg (JStr s) (get_prop (heap w1) error ''stack'') d'
                                  (level (heap w4)) w4 of
                             (p, w5) \<Rightarrow> (Inr None, w5)))))))"

definition reportApiError ::
  "env \<Rightarrow> logger \<Rightarrow> jsval \<Rightarrow> jsval \<Rightarrow> world \<Rightarrow> (jsval + promise option) \<times> world" where
  "reportApiError e lg error data0 w0 =
     report_with_context e lg error data0
       (\<lambda>etc w. getApiRequestData e (get_prop (heap w) error ''request'') etc w)
       appendErrLocData
       (\<lambda>h. get_prop h error ''level'') w0"

definition reportUnexpectedApiError ::
  "env \<Rightarrow> logger \<Rightarrow> jsval \<Rightarrow> jsval \<Rightarrow> world \<Rightarrow> (jsval + promise option) \<times> world" where
  "reportUnexpectedApiError e lg error data0 w0 =
     report_with_context e lg error data0
       (\<lambda>etc w. getApiRequestData e (get_prop (heap w) error ''request'') etc w)
       appendErrLocData
       (\<lambda>h. ALERT) w0"

definition reportAxiosError ::
  "env \<Rightarrow> logger \<Rightarrow> jsval \<Rightarrow> jsval \<Rightarrow> world \<Rightarrow> (jsval + promise option) \<times> world" where
  "reportAxiosError e lg error data0 w0 =
     report_with_context e lg error data0
       (\<lambda>etc w. getApiRequestData e (get_prop (heap w) error ''mainRequest'') etc w)
       appendErrAxiosData
       (\<lambda>h. ERROR) w0"

definition reportSocketError ::
  "env \<Rightarrow> logger \<Rightarrow> jsval \<Rightarrow> jsval \<Rightarrow> world \<Rightarrow> (jsval + promise option) \<times> world" where
  "reportSocketError e lg error data0 w0 =
     report_with_context e lg error data0
       (\<lambda>etc w. getSocketRequestData e (get_prop (heap w) error ''socket'')
                   (get_prop (heap w) error ''request'') etc w)
       appendErrLocData
       (\<lambda>h. get_prop h error ''level'') w0"

section \<open>Error classification\<close>

text \<open>
  \<^verbatim>\<open>this.errorReporters[key]\<close>. The table is an object literal, so besides its five own
  keys the lookup finds the members every object inherits from \<^verbatim>\<open>Object.prototype\<close>;
  any other key gives \<^verbatim>\<open>undefined\<close>, and so does \<^verbatim>\<open>__proto__\<close> give a value that is
  not a function.
\<close>

datatype callee = Api | Socket | Axios | UnexpectedApiErr | General | Inherited string | NotAFunction

definition errorReporters :: "string \<Rightarrow> callee" where
  "errorReporters k =
     (if k = ''api'' then Api
      else if k = ''socket'' then Socket
      else if k = ''axios'' then Axios
      else if k = ''unexpectedApiErr'' then UnexpectedApiErr
      else if k = ''undefined'' then General
      else if k \<in> set [''constructor'', ''toString'', ''toLocaleString'', ''valueOf'',
                        ''isPrototypeOf'', ''hasOwnProperty'', ''propertyIsEnumerable'',
                        ''__lookupGetter__'', ''__lookupSetter__'',
                        ''__defineGetter__'', ''__defineSetter__'']
      then Inherited k
      else NotAFunction)"

text \<open>
  Calling an inherited member with \<open>(error, data)\<close>: five of them return whatever they
  are given; four convert \<open>error\<close> to a property key first, which throws when it has no
  string form; \<^verbatim>\<open>__defineGetter__\<close> and \<^verbatim>\<open>__defineSetter__\<close> throw because \<open>data\<close> is
  not a function. None of them reports anything.
\<close>

definition call_inherited ::
  "env \<Rightarrow> string \<Rightarrow> jsval \<Rightarrow> world \<Rightarrow> (jsval + promise option) \<times> world" where
  "call_inherited e m error w =
     (if m \<in> set [''constructor'', ''toString'', ''toLocaleString'', ''valueOf'', ''isPrototypeOf'']
      then (Inr None, w)
      else if m \<in> set [''hasOwnProperty'', ''propertyIsEnumerable'',
                        ''__lookupGetter__'', ''__lookupSetter__'']
      then (case to_str e (heap w) error of
              Some _ \<Rightarrow> (Inr None, w)
            | None \<Rightarrow> throwTypeError e ''ToPropertyKey(error)'' w)
      else throwTypeError e ''getter is not a function'' w)"

definition dispatch ::
  "env \<Rightarrow> logger \<Rightarrow> jsval \<Rightarrow> jsval \<Rightarrow> world \<Rightarrow> (jsval + promise option) \<times> world" where
  "dispatch e lg error data w =
     (if nullish error then throwTypeError e ''error.errorType'' w
      else case to_str e (heap w) (get_prop (heap w) error ''errorType'') of
             None \<Rightarrow> throwTypeError e ''ToPropertyKey(error.errorType)'' w
           | Some k \<Rightarrow>
               (case errorReporters k of
                  Api \<Rightarrow> reportApiError e lg error data w
                | Socket \<Rightarrow> reportSocketError e lg error data w
                | Axios \<Rightarrow> reportAxiosError e lg error data w
                | UnexpectedApiErr \<Rightarrow> reportUnexpectedApiError e lg error data w
                | General \<Rightarrow> reportGeneralError e lg error data JUndefined w
                | Inherited m \<Rightarrow> call_inherited e m error w
                | NotAFunction \<Rightarrow> throwTypeError e ''this.errorReporters[error.errorType]'' w))"

text \<open>
  \<^verbatim>\<open>error(error, data)\<close>: the reporter found for \<^verbatim>\<open>error.errorType\<close> is called inside
  \<^verbatim>\<open>try\<close>; the handler reports \<open>error\<close> and then the caught \<open>err\<close> through
  \<^verbatim>\<open>reportGeneralError\<close>, outside any \<^verbatim>\<open>try\<close>.
\<close>

definition error_fn :: "env \<Rightarrow> logger \<Rightarrow> jsval \<Rightarrow> jsval \<Rightarrow> world \<Rightarrow> (jsval + unit) \<times> world" where
  "error_fn e lg error data0 w0 =
     (case default_obj data0 w0 of (data, w) \<Rightarrow>
        (case dispatch e lg error data w of
           (Inr _, w1) \<Rightarrow> (Inr (), w1)
         | (Inl err, w1) \<Rightarrow>
             (case reportGeneralError e lg error data JUndefined w1 of
                (Inl x, w2) \<Rightarrow> (Inl x, w2)
              | (Inr _, w2) \<Rightarrow>
                  (case reportGeneralError e lg err data JUndefined w2 of
                     (Inl x, w3) \<Rightarrow> (Inl x, w3)
                   | (Inr _, w3) \<Rightarrow> (Inr (), w3)))))"

section \<open>The queue connection manager: \<^verbatim>\<open>connect\<close> and \<^verbatim>\<open>close\<close>\<close>

text \<open>
  \<^verbatim>\<open>connect\<close> is an \<^verbatim>\<open>async\<close> function: it runs until its next \<^verbatim>\<open>await\<close>, and goes
  on when the awaited promise settles. An invocation is a task that is suspended at one of
  the four \<^verbatim>\<open>await\<close>s (holding its local counter \<open>attempt\<close>), has returned, or has
  failed with an exception. What amqplib and the timer answer is the input: a promise is
  fulfilled (with the number of the new connection or channel) or rejected.
\<close>

datatype pc = AwaitConnect nat | AwaitChannel nat | AwaitAssert nat | AwaitTimer nat
  | Returned | Failed jsval

datatype reply = Fulfil nat | Reject jsval

text \<open>
  The head of the \<^verbatim>\<open>while (!this.isConnected)\<close> loop up to
  \<^verbatim>\<open>await amqp.connect(this.config)\<close>.
\<close>

definition loop_head :: "nat \<Rightarrow> rabbit \<Rightarrow> world \<Rightarrow> pc \<times> rabbit \<times> world" where
  "loop_head attempt r w =
     (if isConnected r then (Returned, r, w)
      else (AwaitConnect attempt, r,
            emit (AmqpConnect (rconfig r))
              (if attempt > 0
               then emit (Console LogSink [Text ''Attempting to reconnect to RabbitMQ...'']) w
               else w)))"

text \<open>
  The \<^verbatim>\<open>catch\<close> block up to the \<^verbatim>\<open>await\<close> of the timer. Printing
  \<^verbatim>\<open>this.retryDelay\<close> in the second message throws when it has no string form, and the
  invocation fails.
\<close>

definition catch_block :: "env \<Rightarrow> nat \<Rightarrow> jsval \<Rightarrow> rabbit \<Rightarrow> world \<Rightarrow> pc \<times> rabbit \<times> world" where
  "catch_block e attempt err r w =
     (let w1 = emit (Console ErrorSink
                       [Text (''RabbitMQ connection ''
                              @ (if attempt > 0 then ''reconnection'' else ''failed'')
                              @ '' (Attempt '' @ show_nat attempt @ ''):''),
                        Val err]) w
      in case to_str e (heap w1) (retryDelay r) of
           None \<Rightarrow>
             (case alloc (typeError e ''template literal'') w1 of (x, w2) \<Rightarrow> (Failed x, r, w2))
         | Some d \<Rightarrow>
             (AwaitTimer attempt, r,
              emit (SetTimeout (retryDelay r))
                (emit (Console LogSink [Text (''Waiting '' @ d @ ''ms before next retry...'')]) w1)))"

text \<open>
  One task goes on from its \<^verbatim>\<open>await\<close> to the next. The queue is always asserted as
  \<^verbatim>\<open>{ durable: true }\<close>. The timer's promise is only ever fulfilled, and a task that has
  settled does nothing more.
\<close>

fun resume :: "env \<Rightarrow> pc \<Rightarrow> reply \<Rightarrow> rabbit \<Rightarrow> world \<Rightarrow> pc \<times> rabbit \<times> world" where
  "resume e (AwaitConnect n) (Fulfil c) r w =
     (AwaitChannel n, r\<lparr>connection := Some c\<rparr>, emit (CreateConfirmChannel c) w)"
| "resume e (AwaitConnect n) (Reject err) r w = catch_block e n err r w"
| "resume e (AwaitChannel n) (Fulfil ch) r w =
     (AwaitAssert n, r\<lparr>channel := Some ch\<rparr>, emit (AssertQueue ch (queue r) True) w)"
| "resume e (AwaitChannel n) (Reject err) r w = catch_block e n err r w"
| "resume e (AwaitAssert n) (Fulfil _) r w =
     (let w1 = emit (Console LogSink [Text ''RabbitMQ connected'']) w;
          r1 = r\<lparr>isConnected := True\<rparr>
      in case connection r1 of
           Some c \<Rightarrow> (Returned, r1, emit (OnClose c) (emit (OnError c) w1))
         | None \<Rightarrow>
             (case alloc (typeError e ''this.connection.on'') w1 of
                (x, w2) \<Rightarrow> catch_block e n x r1 w2))"
| "resume e (AwaitAssert n) (Reject err) r w = catch_block e n err r w"
| "resume e (AwaitTimer n) _ r w = loop_head (n + 1) r w"
| "resume e Returned _ r w = (Returned, r, w)"
| "resume e (Failed x) _ r w = (Failed x, r, w)"

text \<open>Calling \<^verbatim>\<open>connect()\<close>: the part that runs before the caller gets the promise.\<close>

definition connect_start :: "rabbit \<Rightarrow> world \<Rightarrow> pc \<times> rabbit \<times> world" where
  "connect_start r w = (if isConnected r then (Returned, r, w) else loop_head 0 r w)"

text \<open>One invocation running alone, given the answers to its \<^verbatim>\<open>await\<close>s in order.\<close>

fun run :: "env \<Rightarrow> pc \<Rightarrow> reply list \<Rightarrow> rabbit \<Rightarrow> world \<Rightarrow> pc \<times> rabbit \<times> world" where
  "run e p [] r w = (p, r, w)"
| "run e p (x # xs) r w = (case resume e p x r w of (p', r', w') \<Rightarrow> run e p' xs r' w')"

definition connect :: "env \<Rightarrow> rabbit \<Rightarrow> reply list \<Rightarrow> world \<Rightarrow> pc \<times> rabbit \<times> world" where
  "connect e r replies w = (case connect_start r w of (p, r', w') \<Rightarrow> run e p replies r' w')"

text \<open>
  The answers one connection attempt gets: a failure of \<^verbatim>\<open>amqp.connect\<close>, of
  \<^verbatim>\<open>createConfirmChannel\<close> or of \<^verbatim>\<open>assertQueue\<close>, each followed by the timer, or a
  success of all three.
\<close>

datatype attempt =
    ConnectFails jsval
  | ChannelFails nat jsval
  | AssertFails nat nat jsval
  | Succeeds nat nat

fun replies_of :: "attempt \<Rightarrow> reply list" where
  "replies_of (ConnectFails err) = [Reject err, Fulfil 0]"
| "replies_of (ChannelFails c err) = [Fulfil c, Reject err, Fulfil 0]"
| "replies_of (AssertFails c ch err) = [Fulfil c, Fulfil ch, Reject err, Fulfil 0]"
| "replies_of (Succeeds c ch) = [Fulfil c, Fulfil ch, Fulfil 0]"

fun is_failure :: "attempt \<Rightarrow> bool" where
  "is_failure (Succeeds c ch) = False"
| "is_failure a = True"

text \<open>The attempts and the waits in a list of effects.\<close>

fun attempt_or_wait :: "event \<Rightarrow> bool" where
  "attempt_or_wait (AmqpConnect c) = True"
| "attempt_or_wait (SetTimeout d) = True"
| "attempt_or_wait ev = False"

fun is_attempt :: "event \<Rightarrow> bool" where
  "is_attempt (AmqpConnect c) = True"
| "is_attempt ev = False"

text \<open>
  Everything the manager asks of amqplib and of the timer, and what one attempt is
  expected to ask: the network connection, then the confirm channel, then the assertion of
  the queue as durable, a failure at any of the three being followed by the wait, a
  success by the registration of the two handlers on the new connection.
\<close>

fun library_call :: "event \<Rightarrow> bool" where
  "library_call (AmqpConnect c) = True"
| "library_call (CreateConfirmChannel c) = True"
| "library_call (AssertQueue ch q d) = True"
| "library_call (OnError c) = True"
| "library_call (OnClose c) = True"
| "library_call (SetTimeout d) = True"
| "library_call ev = False"

fun calls_of :: "rabbit \<Rightarrow> attempt \<Rightarrow> event list" where
  "calls_of r (ConnectFails err) =
     [AmqpConnect (rconfig r), SetTimeout (retryDelay r)]"
| "calls_of r (ChannelFails c err) =
     [AmqpConnect (rconfig r), CreateConfirmChannel c, SetTimeout (retryDelay r)]"
| "calls_of r (AssertFails c ch err) =
     [AmqpConnect (rconfig r), CreateConfirmChannel c, AssertQueue ch (queue r) True,
      SetTimeout (retryDelay r)]"
| "calls_of r (Succeeds c ch) =
     [AmqpConnect (rconfig r), CreateConfirmChannel c, AssertQueue ch (queue r) True,
      OnError c, OnClose c]"

text \<open>
  Several invocations on one manager. The JavaScript event loop runs one piece of code at
  a time, so an interleaving is a list of actions: a caller invokes \<^verbatim>\<open>connect()\<close>, a
  suspended task gets its answer, or a connection on which the handlers were registered
  emits \<^verbatim>\<open>'error'\<close> or \<^verbatim>\<open>'close'\<close> (the handler clears the flag and invokes
  \<^verbatim>\<open>connect()\<close>). An action that cannot happen gives \<open>None\<close>.
\<close>

record system =
  mgr :: rabbit
  tasks :: "pc list"
  wld :: world

datatype action = CallConnect | Resume nat reply | ErrorEvent nat jsval | CloseEvent nat

fun waiting :: "pc \<Rightarrow> bool" where
  "waiting Returned = False"
| "waiting (Failed x) = False"
| "waiting p = True"

definition call_connect :: "system \<Rightarrow> system" where
  "call_connect s =
     (case connect_start (mgr s) (wld s) of
        (p, r, w) \<Rightarrow> \<lparr>mgr = r, tasks = tasks s @ [p], wld = w\<rparr>)"

fun step :: "env \<Rightarrow> action \<Rightarrow> system \<Rightarrow> system option" where
  "step e CallConnect s = Some (call_connect s)"
| "step e (Resume i x) s =
     (if i < length (tasks s) \<and> waiting (tasks s ! i)
      then (case resume e (tasks s ! i) x (mgr s) (wld s) of
              (p, r, w) \<Rightarrow> Some \<lparr>mgr = r, tasks = (tasks s)[i := p], wld = w\<rparr>)
      else None)"
| "step e (ErrorEvent c err) s =
     (if OnError c \<in> set (events (wld s))
      then Some (call_connect
                  (s\<lparr>mgr := (mgr s)\<lparr>isConnected := False\<rparr>,
                     wld := emit (Console ErrorSink [Text ''RabbitMQ connection error:'', Val err])
                              (wld s)\<rparr>))
      else None)"
| "step e (CloseEvent c) s =
     (if OnClose c \<in> set (events (wld s))
      then Some (call_connect
                  (s\<lparr>mgr := (mgr s)\<lparr>isConnected := False\<rparr>,
                     wld := emit (Console LogSink [Text ''RabbitMQ connection closed'']) (wld s)\<rparr>))
      else None)"

fun exec :: "env \<Rightarrow> action list \<Rightarrow> system \<Rightarrow> system option" where
  "exec e [] s = Some s"
| "exec e (a # as) s = (case step e a s of None \<Rightarrow> None | Some s' \<Rightarrow> exec e as s')"

definition active_loops :: "system \<Rightarrow> nat" where
  "active_loops s = length (filter waiting (tasks s))"

definition attempts :: "system \<Rightarrow> nat" where
  "attempts s = length (filter is_attempt (events (wld s)))"

text \<open>
  \<^verbatim>\<open>close\<close>, given how the promises of \<^verbatim>\<open>channel.close()\<close> and
  \<^verbatim>\<open>connection.close()\<close> settle. There is no \<^verbatim>\<open>try\<close>: a rejected \<^verbatim>\<open>await\<close> rejects the
  promise of \<^verbatim>\<open>close\<close> and nothing after it runs.
\<close>

definition close :: "rabbit \<Rightarrow> promise \<Rightarrow> promise \<Rightarrow> world \<Rightarrow> promise \<times> rabbit \<times> world" where
  "close r channelClose connectionClose w =
     (let r1 = r\<lparr>isConnected := False\<rparr>;
          (p1, w1) = (case channel r1 of
                        Some ch \<Rightarrow> (channelClose, emit (ChannelClose ch) w)
                      | None \<Rightarrow> (Resolved, w))
      in case p1 of
           Rejected err \<Rightarrow> (Rejected err, r1, w1)
         | Pending \<Rightarrow> (Pending, r1, w1)
         | Resolved \<Rightarrow>
             (let (p2, w2) = (case connection r1 of
                                Some c \<Rightarrow> (connectionClose, emit (ConnectionClose c) w1)
                              | None \<Rightarrow> (Resolved, w1))
              in case p2 of
                   Rejected err \<Rightarrow> (Rejected err, r1, w2)
                 | Pending \<Rightarrow> (Pending, r1, w2)
                 | Resolved \<Rightarrow>
                     (Resolved, r1, emit (Console LogSink [Text ''RabbitMQ connection closed'']) w2)))"

section \<open>Letter case\<close>


section \<open>Sample inputs\<close>

text \<open>
  A platform whose transports succeed, a configuration for the console transport, and the
  state before anything has happened.
\<close>

definition sample_env :: env where
  "sample_env =
     \<lparr>now = 1700000000123,
      hostname = ''web-1'',
      toLocaleString = (\<lambda>t. ''11/14/2023, 10:13:20 PM''),
      numberToString = (\<lambda>r. show_nat (nat \<lfloor>r\<rfloor>)),
      typeError =
        (\<lambda>site. \<lparr>props = [],
                  hidden = [(''message'', JStr site),
                            (''stack'', JStr (''TypeError: '' @ site @ [CHR 0x0A]
                               @ ''    at Logger.error (/app/src/logger.js:116:13)''))],
                  toStr = Some (''TypeError: '' @ site)\<rparr>),
      axiosPost = (\<lambda>url logObject. Resolved),
      jsonStringify = (\<lambda>h message. Inr (''{'' @ concat (map fst message) @ ''}'')),
      sendToQueue = (\<lambda>ch q payload. Callback JNull)\<rparr>"

definition sample_config :: config where
  "sample_config =
     \<lparr>transport = JStr ''console'', env_tag = JStr ''production'', appName = JStr ''shop'',
      httpUrl = JStr ''http://graylog:12201/gelf'', httpAuthUsername = JUndefined,
      httpAuthPassword = JUndefined, httpTimeout = JUndefined, amqpHost = JUndefined,
      amqpPort = JUndefined, amqpUser = JUndefined, amqpPassword = JUndefined,
      amqpQueue = JUndefined, amqpRetryDelay = JUndefined\<rparr>"

definition empty_world :: world where
  "empty_world = \<lparr>heap = [], events = []\<rparr>"




definition fresh_rabbit :: rabbit where
  "fresh_rabbit = RabbitMQ (JStr ''127.0.0.1'') (JNum 5672) (JStr ''guest'') (JStr ''guest'')
                    (JStr ''logs'') (JNum 1000)"

definition connected_rabbit :: rabbit where
  "connected_rabbit = fresh_rabbit\<lparr>connection := Some 1, channel := Some 2, isConnected := True\<rparr>"

definition connecting_rabbit :: rabbit where
  "connecting_rabbit = fresh_rabbit\<lparr>connection := Some 1, channel := Some 2\<rparr>"

text \<open>
  No invocation has been made yet. Then \<^verbatim>\<open>init()\<close> invokes \<^verbatim>\<open>connect()\<close>, the three
  steps of the first attempt succeed, and later connection 1 emits \<^verbatim>\<open>'error'\<close>.
\<close>

definition initial_system :: system where
  "initial_system = \<lparr>mgr = fresh_rabbit, tasks = [], wld = empty_world\<rparr>"

definition connection_lost :: "action list" where
  "connection_lost =
     [CallConnect, Resume 0 (Fulfil 1), Resume 0 (Fulfil 2), Resume 0 (Fulfil 0),
      ErrorEvent 1 (JStr ''ECONNRESET'')]"

text \<open>
  The loggers the constructor builds for the console and for the HTTP transport, and a
  platform on which every HTTP request is rejected with \<^verbatim>\<open>undefined\<close>.
\<close>

definition console_logger :: logger where
  "console_logger = \<lparr>lconfig = sample_config, sendLogKind = ViaConsole, rabbitMQ = None\<rparr>"

definition http_logger :: logger where
  "http_logger =
     \<lparr>lconfig = sample_config\<lparr>transport := JStr ''http''\<rparr>,
      sendLogKind = ViaHttp \<lparr>contentType = ''application/json; charset=utf-8'', proxy = False,
                             timeout = JNum 2000, auth = None\<rparr>,
      rabbitMQ = None\<rparr>"

definition rejecting_env :: env where
  "rejecting_env = sample_env\<lparr>axiosPost := (\<lambda>url logObject. Rejected JUndefined)\<rparr>"

text \<open>
  An \<^verbatim>\<open>Error\<close> thrown in \<^verbatim>\<open>/app/src/orders.js\<close>, line 42. Heaps that hold it at address 0:
  with the caller's data at address 1; with the kind \<^verbatim>\<open>api\<close>, a \<^verbatim>\<open>GET\<close> request at
  address 2 and its query at address 3; with the kind \<^verbatim>\<open>toString\<close>; with the kind
  \<^verbatim>\<open>database\<close>, for which there is no reporter.
\<close>

definition sample_error :: jsobj where
  "sample_error =
     \<lparr>props = [],
      hidden = [(''message'', JStr ''boom''),
                (''stack'', JStr (''Error: boom'' @ [CHR 0x0A]
                   @ ''    at handler (/app/src/orders.js:42:11)''))],
      toStr = Some ''Error: boom''\<rparr>"

definition general_world :: world where
  "general_world = \<lparr>heap = [sample_error, plain [(''order'', JNum 7)]], events = []\<rparr>"

definition api_world :: world where
  "api_world =
     \<lparr>heap = [sample_error\<lparr>props := [(''errorType'', JStr ''api''), (''request'', JRef 2),
                                      (''level'', JNum 3)]\<rparr>,
              plain [(''order'', JNum 7)],
              plain [(''method'', JStr ''GET''), (''originalUrl'', JStr ''/orders''),
                     (''ip'', JStr ''10.0.0.1''), (''query'', JRef 3)],
              plain [(''id'', JStr ''7'')]],
      events = []\<rparr>"

definition odd_kind_world :: world where
  "odd_kind_world =
     \<lparr>heap = [sample_error\<lparr>props := [(''errorType'', JStr ''toString'')]\<rparr>], events = []\<rparr>"

definition unknown_kind_world :: world where
  "unknown_kind_world =
     \<lparr>heap = [sample_error\<lparr>props := [(''errorType'', JStr ''database'')]\<rparr>], events = []\<rparr>"

text \<open>The effects that are calls of the transport, one for each report.\<close>

fun reported :: "event \<Rightarrow> bool" where
  "reported (SendLog logObject) = True"
| "reported ev = False"

section \<open>What a call leaves of the heap\<close>

text \<open>
  The first \<open>n\<close> objects of the heap are the same after as before, and no object has
  gone: with \<open>n\<close> the size of the heap before a call, every object the caller could
  hold is unchanged.
\<close>

definition keeps :: "nat \<Rightarrow> world \<Rightarrow> world \<Rightarrow> bool" where
  "keeps n w w' = (length (heap w) \<le> length (heap w') \<and> take n (heap w') = take n (heap w))"

section \<open>Properties of the log record builder\<close>

lemma map_of_assign_prop:
  "map_of (assign_prop ps k v) x = (if x = k then Some v else map_of ps x)"
  by (induction ps) auto

lemma map_of_set_prop:
  "map_of (set_prop ps k v) x = (if k \<noteq> ''__proto__'' \<and> x = k then Some v else map_of ps x)"
  by (simp add: set_prop_def map_of_assign_prop)

lemma map_of_copy_other:
  "x \<notin> (\<lambda>d. pre @ d) ` fst ` set es \<Longrightarrow> map_of (copy_prefixed pre es obj) x = map_of obj x"
  unfolding copy_prefixed_def
  by (induction es arbitrary: obj) (auto simp: map_of_set_prop)

lemma map_of_copy_entry:
  "(k, v) \<in> set es \<Longrightarrow> distinct (map fst es) \<Longrightarrow> pre @ k \<noteq> ''__proto__''
   \<Longrightarrow> map_of (copy_prefixed pre es obj) (pre @ k) = Some v"
proof (induction es arbitrary: obj)
  case Nil
  then show ?case by simp
next
  case (Cons a es)
  obtain k1 v1 where a: "a = (k1, v1)" by (cases a)
  have step: "copy_prefixed pre (a # es) obj = copy_prefixed pre es (set_prop obj (pre @ k1) v1)"
    by (simp add: copy_prefixed_def a)
  show ?case
  proof (cases "(k, v) \<in> set es")
    case True
    with Cons show ?thesis unfolding step by simp
  next
    case False
    with Cons.prems a have kv: "k1 = k" "v1 = v" by auto
    from Cons.prems a kv have "k \<notin> fst ` set es" by auto
    then have "pre @ k \<notin> (\<lambda>d. pre @ d) ` fst ` set es" by auto
    then show ?thesis
      unfolding step using Cons.prems(3) kv
      by (simp add: map_of_copy_other map_of_set_prop)
  qed
qed

lemma copy_prefixed_Cons:
  "copy_prefixed pre ((k, v) # es) obj = copy_prefixed pre es (set_prop obj (pre @ k) v)"
  by (simp add: copy_prefixed_def)

lemma map_of_copy_cong:
  "map_of o1 x = map_of o2 x \<Longrightarrow>
   map_of (copy_prefixed pre es o1) x = map_of (copy_prefixed pre es o2) x"
proof (induction es arbitrary: o1 o2)
  case Nil
  then show ?case by (simp add: copy_prefixed_def)
next
  case (Cons a es)
  obtain k v where a: "a = (k, v)" by (cases a)
  have "map_of (set_prop o1 (pre @ k) v) x = map_of (set_prop o2 (pre @ k) v) x"
    using Cons.prems by (simp add: map_of_set_prop)
  then show ?case
    unfolding a copy_prefixed_Cons by (rule Cons.IH)
qed

lemma lookup_prop_map_of:
  "lookup_prop ps k = (case map_of ps k of Some v \<Rightarrow> v | None \<Rightarrow> JUndefined)"
  by (induction ps) auto

lemma getLogObject_no_data:
  "getLogObject e h s f JUndefined level cfg =
     [(''version'', JStr ''1.1''), (''host'', JStr (hostname e)),
      (''timestamp'', JNum (real (now e) / 1000)), (''short_message'', s),
      (''full_message'', f), (''level'', level), (''_env'', env_tag cfg),
      (''_localeDate'',
         JStr (replace_am_pm (toLocaleString e (now e)) (show_nat (now e mod 1000)))),
      (''_app_name'', appName cfg)]"
  by (simp add: getLogObject_def for_in_def copy_prefixed_def Let_def)

lemma getLogObject_other_key:
  "x \<notin> (\<lambda>d. ''_'' @ d) ` fst ` set (for_in h data) \<Longrightarrow>
   map_of (getLogObject e h s f data level cfg) x
     = map_of (getLogObject e h s f JUndefined level cfg) x"
  unfolding getLogObject_no_data
  by (simp add: getLogObject_def Let_def map_of_copy_other del: map_of.simps)

lemma getLogObject_extra_key:
  "(k, v) \<in> set (for_in h data) \<Longrightarrow> distinct (map fst (for_in h data)) \<Longrightarrow> k \<noteq> ''_proto__''
   \<Longrightarrow> map_of (getLogObject e h s f data level cfg) (''_'' @ k) = Some v"
  unfolding getLogObject_def Let_def
  by (rule map_of_copy_entry) auto

text \<open>
  Claim C7, as the code has it. Every extra key is stored under the key with \<open>_\<close> in
  front of it (but for the key \<^verbatim>\<open>_proto__\<close>, whose prefixed form is no data property), and
  the six fields of the record whose names do not begin with \<open>_\<close> are never touched by
  extra data. The three fields \<^verbatim>\<open>_env\<close>, \<^verbatim>\<open>_localeDate\<close> and \<^verbatim>\<open>_app_name\<close> keep the
  configured value only when the extra data has no key \<^verbatim>\<open>env\<close>, \<^verbatim>\<open>localeDate\<close> or
  \<^verbatim>\<open>app_name\<close>; such a key overwrites them.
\<close>

theorem getLogObject_extra_keys:
  "map_of (getLogObject e h s f data level cfg) ''version'' = Some (JStr ''1.1'')
   \<and> map_of (getLogObject e h s f data level cfg) ''host'' = Some (JStr (hostname e))
   \<and> map_of (getLogObject e h s f data level cfg) ''timestamp'' = Some (JNum (real (now e) / 1000))
   \<and> map_of (getLogObject e h s f data level cfg) ''short_message'' = Some s
   \<and> map_of (getLogObject e h s f data level cfg) ''full_message'' = Some f
   \<and> map_of (getLogObject e h s f data level cfg) ''level'' = Some level
   \<and> (\<forall>k v. (k, v) \<in> set (for_in h data) \<longrightarrow> distinct (map fst (for_in h data))
          \<longrightarrow> k \<noteq> ''_proto__''
          \<longrightarrow> map_of (getLogObject e h s f data level cfg) (''_'' @ k) = Some v)
   \<and> (''env'' \<notin> fst ` set (for_in h data)
        \<longrightarrow> map_of (getLogObject e h s f data level cfg) ''_env'' = Some (env_tag cfg))
   \<and> (''localeDate'' \<notin> fst ` set (for_in h data)
        \<longrightarrow> map_of (getLogObject e h s f data level cfg) ''_localeDate''
              = Some (JStr (replace_am_pm (toLocaleString e (now e)) (show_nat (now e mod 1000)))))
   \<and> (''app_name'' \<notin> fst ` set (for_in h data)
        \<longrightarrow> map_of (getLogObject e h s f data level cfg) ''_app_name'' = Some (appName cfg))"
proof (intro conjI allI impI)
  show "map_of (getLogObject e h s f data level cfg) ''version'' = Some (JStr ''1.1'')"
    by (subst getLogObject_other_key) (auto simp: getLogObject_no_data)
  show "map_of (getLogObject e h s f data level cfg) ''host'' = Some (JStr (hostname e))"
    by (subst getLogObject_other_key) (auto simp: getLogObject_no_data)
  show "map_of (getLogObject e h s f data level cfg) ''timestamp'' = Some (JNum (real (now e) / 1000))"
    by (subst getLogObject_other_key) (auto simp: getLogObject_no_data)
  show "map_of (getLogObject e h s f data level cfg) ''short_message'' = Some s"
    by (subst getLogObject_other_key) (auto simp: getLogObject_no_data)
  show "map_of (getLogObject e h s f data level cfg) ''full_message'' = Some f"
    by (subst getLogObject_other_key) (auto simp: getLogObject_no_data)
  show "map_of (getLogObject e h s f data level cfg) ''level'' = Some level"
    by (subst getLogObject_other_key) (auto simp: getLogObject_no_data)
  show "map_of (getLogObject e h s f data level cfg) (''_'' @ k) = Some v"
    if "(k, v) \<in> set (for_in h data)" "distinct (map fst (for_in h data))" "k \<noteq> ''_proto__''"
    for k v
    using that by (rule getLogObject_extra_key)
  show "map_of (getLogObject e h s f data level cfg) ''_env'' = Some (env_tag cfg)"
    if "''env'' \<notin> fst ` set (for_in h data)"
    using that by (subst getLogObject_other_key) (auto simp: getLogObject_no_data)
  show "map_of (getLogObject e h s f data level cfg) ''_localeDate''
          = Some (JStr (replace_am_pm (toLocaleString e (now e)) (show_nat (now e mod 1000))))"
    if "''localeDate'' \<notin> fst ` set (for_in h data)"
    using that by (subst getLogObject_other_key) (auto simp: getLogObject_no_data)
  show "map_of (getLogObject e h s f data level cfg) ''_app_name'' = Some (appName cfg)"
    if "''app_name'' \<notin> fst ` set (for_in h data)"
    using that by (subst getLogObject_other_key) (auto simp: getLogObject_no_data)
qed

text \<open>The record of the specification's example: component \<^verbatim>\<open>writer\<close> at level 3.\<close>

theorem getLogObject_extra_keys_witness:
  "map_of (getLogObject sample_env [plain [(''component'', JStr ''writer'')]]
             (JStr ''Disk full'') (JStr ''stack...'') (JRef 0) (JNum 3) sample_config) ''_component''
     = Some (JStr ''writer'')
   \<and> map_of (getLogObject sample_env [plain [(''component'', JStr ''writer'')]]
             (JStr ''Disk full'') (JStr ''stack...'') (JRef 0) (JNum 3) sample_config) ''level''
     = Some (JNum 3)
   \<and> map_of (getLogObject sample_env [plain [(''component'', JStr ''writer'')]]
             (JStr ''Disk full'') (JStr ''stack...'') (JRef 0) (JNum 3) sample_config) ''_env''
     = Some (env_tag sample_config)
   \<and> map_of (getLogObject sample_env [plain [(''component'', JStr ''writer'')]]
             (JStr ''Disk full'') (JStr ''stack...'') (JRef 0) (JNum 3) sample_config) ''_localeDate''
     = Some (JStr ''11/14/2023, 10:13:20.123 PM'')
   \<and> map_of (getLogObject sample_env [plain [(''component'', JStr ''writer'')]]
             (JStr ''Disk full'') (JStr ''stack...'') (JRef 0) (JNum 3) sample_config) ''_app_name''
     = Some (appName sample_config)"
proof -
  let ?h = "[plain [(''component'', JStr ''writer'')]]"
  have es: "for_in ?h (JRef 0) = [(''component'', JStr ''writer'')]"
    by (simp add: for_in_def plain_def)
  have 1: "(''component'', JStr ''writer'') \<in> set (for_in ?h (JRef 0))"
    and 2: "distinct (map fst (for_in ?h (JRef 0)))"
    and 3: "''component'' \<noteq> ''_proto__''"
    and 4: "''env'' \<notin> fst ` set (for_in ?h (JRef 0))"
    and 5: "''localeDate'' \<notin> fst ` set (for_in ?h (JRef 0))"
    and 6: "''app_name'' \<notin> fst ` set (for_in ?h (JRef 0))"
    unfolding es by simp_all
  have 7: "replace_am_pm (toLocaleString sample_env (now sample_env))
             (show_nat (now sample_env mod 1000)) = ''11/14/2023, 10:13:20.123 PM''"
    by (simp add: sample_env_def show_nat.simps)
  from 1 2 3 4 5 6 show ?thesis
    using getLogObject_extra_keys [of sample_env ?h "JStr ''Disk full''" "JStr ''stack...''"
        "JRef 0" "JNum 3" sample_config]
    unfolding 7 by (metis append_Cons append_Nil)
qed

text \<open>
  Claim C7 as stated fails: the extra key \<^verbatim>\<open>env\<close> lands on the reserved field
  \<^verbatim>\<open>_env\<close> and replaces the configured environment tag.
\<close>

theorem getLogObject_reserved_collision:
  "map_of (getLogObject sample_env [plain [(''env'', JStr ''x'')]]
             (JStr ''Disk full'') (JStr ''stack...'') (JRef 0) ERROR sample_config) ''_env''
     \<noteq> Some (env_tag sample_config)"
  by (simp add: getLogObject_def Let_def copy_prefixed_def for_in_def plain_def set_prop_def sample_config_def)

text \<open>
  Claim C9, as the code has it. Two calls with the same five arguments give records that
  agree on every field but \<^verbatim>\<open>host\<close>, \<^verbatim>\<open>timestamp\<close> and \<^verbatim>\<open>_localeDate\<close>, which are
  read from the host name and the clock; the records are equal when the clock, the host
  name and the locale's rendering of the time are the same. The function returns the
  record and has no other effect.
\<close>

theorem getLogObject_platform:
  "(\<forall>k. k \<notin> {''host'', ''timestamp'', ''_localeDate''} \<longrightarrow>
        map_of (getLogObject e1 h s f data level cfg) k
          = map_of (getLogObject e2 h s f data level cfg) k)
   \<and> (now e1 = now e2 \<and> hostname e1 = hostname e2
        \<and> toLocaleString e1 (now e1) = toLocaleString e2 (now e2)
        \<longrightarrow> getLogObject e1 h s f data level cfg = getLogObject e2 h s f data level cfg)"
proof (intro conjI allI impI)
  fix k :: string
  assume k: "k \<notin> {''host'', ''timestamp'', ''_localeDate''}"
  then have "map_of (getLogObject e1 h s f JUndefined level cfg) k
      = map_of (getLogObject e2 h s f JUndefined level cfg) k"
    by (simp add: getLogObject_no_data)
  then show "map_of (getLogObject e1 h s f data level cfg) k
      = map_of (getLogObject e2 h s f data level cfg) k"
    unfolding getLogObject_no_data unfolding getLogObject_def Let_def
    by (rule map_of_copy_cong)
next
  assume "now e1 = now e2 \<and> hostname e1 = hostname e2
        \<and> toLocaleString e1 (now e1) = toLocaleString e2 (now e2)"
  then show "getLogObject e1 h s f data level cfg = getLogObject e2 h s f data level cfg"
    by (elim conjE) (simp add: getLogObject_def Let_def)
qed

text \<open>Two calls a second apart agree on the level; two calls at the same instant are equal.\<close>

theorem getLogObject_platform_witness:
  "map_of (getLogObject sample_env [] (JStr ''a'') (JStr ''b'') JUndefined ERROR sample_config) ''level''
     = map_of (getLogObject (sample_env\<lparr>now := 1700000001000\<rparr>) [] (JStr ''a'') (JStr ''b'')
                 JUndefined ERROR sample_config) ''level''
   \<and> getLogObject sample_env [] (JStr ''a'') (JStr ''b'') JUndefined ERROR sample_config
     = getLogObject (sample_env\<lparr>typeError := (\<lambda>site. plain [])\<rparr>) [] (JStr ''a'') (JStr ''b'')
         JUndefined ERROR sample_config"
  using getLogObject_platform [where ?e1.0 = sample_env and ?e2.0 = "sample_env\<lparr>now := 1700000001000\<rparr>"
      and h = "[]" and s = "JStr ''a''" and f = "JStr ''b''" and data = JUndefined and level = ERROR
      and cfg = sample_config]
    getLogObject_platform [where ?e1.0 = sample_env
      and ?e2.0 = "sample_env\<lparr>typeError := (\<lambda>site. plain [])\<rparr>"
      and h = "[]" and s = "JStr ''a''" and f = "JStr ''b''" and data = JUndefined and level = ERROR
      and cfg = sample_config]
  by simp

text \<open>
  Claim C9 as stated fails: the same five arguments at two different times give two
  different records.
\<close>

theorem getLogObject_not_deterministic:
  "getLogObject sample_env [] (JStr ''a'') (JStr ''b'') JUndefined ERROR sample_config
     \<noteq> getLogObject (sample_env\<lparr>now := 1700000001000\<rparr>) [] (JStr ''a'') (JStr ''b'')
           JUndefined ERROR sample_config"
proof -
  have "now sample_env = 1700000000123"
    by (simp add: sample_env_def)
  then show ?thesis
    by (simp add: getLogObject_no_data)
qed


section \<open>Properties of the constructor\<close>










text \<open>The two sample loggers are what the constructor builds.\<close>

lemma sample_loggers_built:
  "Logger sample_env sample_config empty_world = (Inr console_logger, empty_world)"
  "Logger sample_env (sample_config\<lparr>transport := JStr ''http''\<rparr>) empty_world
     = (Inr http_logger, empty_world)"
  by (simp_all add: Logger_def to_str_def toLowerCase_def toLowerChar_def upper_letters_def
      lower_letters_def Let_def js_or_def sample_config_def console_logger_def http_logger_def)




section \<open>Properties of \<^verbatim>\<open>sendMessage\<close> and \<^verbatim>\<open>close\<close>\<close>



text \<open>
  The connecting sample manager is what \<^verbatim>\<open>connect\<close> leaves while it awaits the queue
  assertion of its first attempt.
\<close>

lemma connecting_rabbit_reached:
  "connect sample_env fresh_rabbit [Fulfil 1, Fulfil 2] empty_world
     = (AwaitAssert 0, connecting_rabbit,
        \<lparr>heap = [], events = [AmqpConnect (rconfig fresh_rabbit), CreateConfirmChannel 1,
                               AssertQueue 2 (JStr ''logs'') True]\<rparr>)"
  by (simp add: connect_def connect_start_def loop_head_def fresh_rabbit_def RabbitMQ_def
      connecting_rabbit_def emit_def empty_world_def js_or_def)


text \<open>
  Claim C5, as the code has it. \<^verbatim>\<open>close\<close> always clears the connected flag, and closes
  the channel before the connection. An error of \<^verbatim>\<open>channel.close()\<close> rejects the promise
  of \<^verbatim>\<open>close\<close> with that error and the connection is not closed; an error of
  \<^verbatim>\<open>connection.close()\<close> rejects it too.
\<close>

theorem close_effects:
  "isConnected (fst (snd (close r channelClose connectionClose w))) = False
   \<and> (\<forall>ch c. channel r = Some ch \<longrightarrow> connection r = Some c \<longrightarrow>
         channelClose = Resolved \<longrightarrow> connectionClose = Resolved \<longrightarrow>
         fst (close r channelClose connectionClose w) = Resolved
         \<and> events (snd (snd (close r channelClose connectionClose w)))
             = events w @ [ChannelClose ch, ConnectionClose c,
                           Console LogSink [Text ''RabbitMQ connection closed'']])
   \<and> (\<forall>ch err. channel r = Some ch \<longrightarrow> channelClose = Rejected err \<longrightarrow>
         fst (close r channelClose connectionClose w) = Rejected err
         \<and> events (snd (snd (close r channelClose connectionClose w))) = events w @ [ChannelClose ch])
   \<and> (\<forall>c err. channel r = None \<or> channelClose = Resolved \<longrightarrow> connection r = Some c \<longrightarrow>
         connectionClose = Rejected err \<longrightarrow>
         fst (close r channelClose connectionClose w) = Rejected err)"
  by (auto simp: close_def emit_def Let_def split: option.splits promise.splits prod.splits)

text \<open>Closing a connected manager: both closures succeed, the first fails, the second fails.\<close>

theorem close_effects_witness:
  "fst (close connected_rabbit Resolved Resolved empty_world) = Resolved
   \<and> events (snd (snd (close connected_rabbit Resolved Resolved empty_world)))
       = events empty_world @ [ChannelClose 2, ConnectionClose 1,
                                Console LogSink [Text ''RabbitMQ connection closed'']]
   \<and> fst (close connected_rabbit (Rejected (JStr ''Channel closed'')) Resolved empty_world)
       = Rejected (JStr ''Channel closed'')
   \<and> events (snd (snd (close connected_rabbit (Rejected (JStr ''Channel closed'')) Resolved empty_world)))
       = events empty_world @ [ChannelClose 2]
   \<and> fst (close connected_rabbit Resolved (Rejected (JStr ''Connection closed'')) empty_world)
       = Rejected (JStr ''Connection closed'')"
proof -
  have ch: "channel connected_rabbit = Some 2" "connection connected_rabbit = Some 1"
    by (simp_all add: connected_rabbit_def fresh_rabbit_def RabbitMQ_def)
  from close_effects [of connected_rabbit Resolved Resolved empty_world] ch
  have 1: "fst (close connected_rabbit Resolved Resolved empty_world) = Resolved
   \<and> events (snd (snd (close connected_rabbit Resolved Resolved empty_world)))
       = events empty_world @ [ChannelClose 2, ConnectionClose 1,
                                Console LogSink [Text ''RabbitMQ connection closed'']]"
    by blast
  from close_effects [of connected_rabbit "Rejected (JStr ''Channel closed'')" Resolved empty_world] ch
  have 2: "fst (close connected_rabbit (Rejected (JStr ''Channel closed'')) Resolved empty_world)
       = Rejected (JStr ''Channel closed'')
   \<and> events (snd (snd (close connected_rabbit (Rejected (JStr ''Channel closed'')) Resolved empty_world)))
       = events empty_world @ [ChannelClose 2]"
    by blast
  from close_effects [of connected_rabbit Resolved "Rejected (JStr ''Connection closed'')" empty_world] ch
  have 3: "fst (close connected_rabbit Resolved (Rejected (JStr ''Connection closed'')) empty_world)
       = Rejected (JStr ''Connection closed'')"
    by blast
  from 1 2 3 show ?thesis by blast
qed

text \<open>
  Claim C5 as stated fails: when closing the channel fails, \<^verbatim>\<open>close\<close> does not complete
  quietly, the caller's promise is rejected, and the connection is left open.
\<close>

theorem close_propagates_error:
  "fst (close connected_rabbit (Rejected (JStr ''Channel closed'')) Resolved empty_world) \<noteq> Resolved
   \<and> ConnectionClose 1 \<notin> set (events (snd (snd
        (close connected_rabbit (Rejected (JStr ''Channel closed'')) Resolved empty_world))))"
  by (simp add: close_def connected_rabbit_def fresh_rabbit_def RabbitMQ_def emit_def empty_world_def)


section \<open>Properties of \<^verbatim>\<open>connect\<close>\<close>

lemma run_append:
  "run e p (xs @ ys) r w = (case run e p xs r w of (p', r', w') \<Rightarrow> run e p' ys r' w')"
  by (induction xs arbitrary: p r w) (auto split: prod.splits)

lemma filter_emit:
  "filter P (events (emit ev w)) = filter P (events w) @ (if P ev then [ev] else [])"
  by (simp add: emit_def)

lemma calls_of_cong:
  "rconfig r' = rconfig r \<Longrightarrow> retryDelay r' = retryDelay r \<Longrightarrow> queue r' = queue r
   \<Longrightarrow> calls_of r' a = calls_of r a"
  by (cases a) simp_all

lemma calls_of_hd: "calls_of r a = AmqpConnect (rconfig r) # tl (calls_of r a)"
  by (cases a) simp_all

lemma failure_round:
  assumes "\<not> isConnected r" and "retryDelay r = JNum d" and "is_failure a"
  shows "\<exists>r' w'. run e (AwaitConnect n) (replies_of a) r w = (AwaitConnect (n + 1), r', w')
           \<and> \<not> isConnected r' \<and> retryDelay r' = retryDelay r \<and> rconfig r' = rconfig r
           \<and> queue r' = queue r
           \<and> filter attempt_or_wait (events w')
               = filter attempt_or_wait (events w) @ [SetTimeout (retryDelay r), AmqpConnect (rconfig r)]
           \<and> filter library_call (events w')
               = filter library_call (events w) @ tl (calls_of r a) @ [AmqpConnect (rconfig r)]"
  using assms
  by (cases a) (simp_all add: catch_block_def loop_head_def to_str_def filter_emit Let_def)

lemma rounds_hd:
  "concat (map (calls_of r) as) @ [AmqpConnect (rconfig r)]
     = AmqpConnect (rconfig r) # tl (concat (map (calls_of r) as) @ [AmqpConnect (rconfig r)])"
proof (cases as)
  case Nil
  then show ?thesis by simp
next
  case (Cons a as')
  obtain t where "calls_of r a = AmqpConnect (rconfig r) # t"
    using calls_of_hd [of r a] by blast
  with Cons show ?thesis by simp
qed

lemma failure_rounds:
  assumes "\<forall>a \<in> set fails. is_failure a" and "\<not> isConnected r" and "retryDelay r = JNum d"
  shows "\<exists>r' w'. run e (AwaitConnect n) (concat (map replies_of fails)) r w
             = (AwaitConnect (n + length fails), r', w')
           \<and> \<not> isConnected r' \<and> retryDelay r' = retryDelay r \<and> rconfig r' = rconfig r
           \<and> queue r' = queue r
           \<and> filter attempt_or_wait (events w')
               = filter attempt_or_wait (events w)
                 @ concat (replicate (length fails) [SetTimeout (retryDelay r), AmqpConnect (rconfig r)])
           \<and> filter library_call (events w')
               = filter library_call (events w)
                 @ tl (concat (map (calls_of r) fails) @ [AmqpConnect (rconfig r)])"
  using assms
proof (induction fails arbitrary: r w n)
  case Nil
  then show ?case by simp
next
  case (Cons a fails)
  from Cons.prems have a: "is_failure a" by simp
  from failure_round [OF Cons.prems(2) Cons.prems(3) a, of e n w]
  obtain r1 w1 where 1: "run e (AwaitConnect n) (replies_of a) r w = (AwaitConnect (n + 1), r1, w1)"
    and c1: "\<not> isConnected r1" and d1: "retryDelay r1 = retryDelay r" and g1: "rconfig r1 = rconfig r"
    and q1: "queue r1 = queue r"
    and e1: "filter attempt_or_wait (events w1)
               = filter attempt_or_wait (events w) @ [SetTimeout (retryDelay r), AmqpConnect (rconfig r)]"
    and l1: "filter library_call (events w1)
               = filter library_call (events w) @ tl (calls_of r a) @ [AmqpConnect (rconfig r)]"
    by blast
  from Cons.prems d1 have d1': "retryDelay r1 = JNum d" by simp
  from Cons.prems have rest: "\<forall>a \<in> set fails. is_failure a" by simp
  from Cons.IH [OF rest c1 d1', of "n + 1" w1]
  obtain r2 w2 where 2: "run e (AwaitConnect (n + 1)) (concat (map replies_of fails)) r1 w1
             = (AwaitConnect (n + 1 + length fails), r2, w2)"
    and c2: "\<not> isConnected r2" and d2: "retryDelay r2 = retryDelay r1" and g2: "rconfig r2 = rconfig r1"
    and q2: "queue r2 = queue r1"
    and e2: "filter attempt_or_wait (events w2)
               = filter attempt_or_wait (events w1)
                 @ concat (replicate (length fails) [SetTimeout (retryDelay r1), AmqpConnect (rconfig r1)])"
    and l2: "filter library_call (events w2)
               = filter library_call (events w1)
                 @ tl (concat (map (calls_of r1) fails) @ [AmqpConnect (rconfig r1)])"
    by blast
  have same: "map (calls_of r1) fails = map (calls_of r) fails"
    using calls_of_cong [OF g1 d1 q1] by simp
  have "run e (AwaitConnect n) (concat (map replies_of (a # fails))) r w
          = (AwaitConnect (n + length (a # fails)), r2, w2)"
    using 2 by (simp add: run_append 1)
  moreover have "filter attempt_or_wait (events w2)
               = filter attempt_or_wait (events w)
                 @ concat (replicate (length (a # fails)) [SetTimeout (retryDelay r), AmqpConnect (rconfig r)])"
    by (simp add: e2 e1 d1 g1)
  moreover have "filter library_call (events w2)
               = filter library_call (events w)
                 @ tl (concat (map (calls_of r) (a # fails)) @ [AmqpConnect (rconfig r)])"
  proof -
    have "filter library_call (events w2)
        = filter library_call (events w) @ tl (calls_of r a)
          @ (AmqpConnect (rconfig r) # tl (concat (map (calls_of r) fails) @ [AmqpConnect (rconfig r)]))"
      by (simp add: l2 l1 same g1)
    also have "\<dots> = filter library_call (events w) @ tl (calls_of r a)
          @ (concat (map (calls_of r) fails) @ [AmqpConnect (rconfig r)])"
      using rounds_hd [of r fails] by simp
    also have "\<dots> = filter library_call (events w)
          @ tl (calls_of r a @ concat (map (calls_of r) fails) @ [AmqpConnect (rconfig r)])"
    proof -
      obtain t where "calls_of r a = AmqpConnect (rconfig r) # t"
        using calls_of_hd [of r a] by blast
      then show ?thesis by simp
    qed
    finally show ?thesis by simp
  qed
  ultimately show ?case using c2 d2 d1 g2 g1 q2 q1
    by (intro exI [of _ r2] exI [of _ w2] conjI) simp_all
qed

lemma success_round:
  assumes "\<not> isConnected r"
  shows "\<exists>r' w'. run e (AwaitConnect n) (replies_of (Succeeds c ch)) r w = (Returned, r', w')
           \<and> isConnected r' \<and> connection r' = Some c \<and> channel r' = Some ch
           \<and> filter attempt_or_wait (events w') = filter attempt_or_wait (events w)
           \<and> events w' = events w @ [CreateConfirmChannel c, AssertQueue ch (queue r) True,
                 Console LogSink [Text ''RabbitMQ connected''], OnError c, OnClose c]"
  by (simp add: emit_def Let_def)

lemma before_assertion:
  assumes "\<not> isConnected r"
  shows "\<exists>r' w'. run e (AwaitConnect n) [Fulfil c, Fulfil ch] r w = (AwaitAssert n, r', w')
           \<and> \<not> isConnected r'"
  using assms by simp

lemma shift_rounds:
  "a # concat (replicate n [b, a]) = concat (replicate n [a, b]) @ [a]"
  by (induction n) simp_all


text \<open>
  Claim C3. A manager that is not connected and whose retry delay is a number gets
  \<open>N\<close> failed attempts (whichever of the three steps fails) and then a success. The one
  invocation of \<^verbatim>\<open>connect\<close> returns with the manager connected on the connection and
  channel of the last attempt. What it did is \<open>N\<close> times an attempt followed by a wait of
  the configured delay, then one more attempt; in full, what it asked of amqplib and of
  the timer is, attempt by attempt, the network connection, the confirm channel and the
  durable queue assertion as far as the attempt got, then the wait, and for the last
  attempt all three and the two handlers. After the \<open>N\<close> failures alone it has not
  stopped: it is not connected and is awaiting attempt number \<open>N + 1\<close>. And it is still
  not connected when the last attempt has its connection and its channel and the queue
  assertion is awaited.
\<close>

theorem connect_retries_until_success:
  assumes "\<not> isConnected r" and "retryDelay r = JNum d" and "\<forall>a \<in> set fails. is_failure a"
  shows "(\<exists>r' w'. connect e r (concat (map replies_of fails) @ replies_of (Succeeds c ch)) w
                    = (Returned, r', w')
            \<and> isConnected r' \<and> connection r' = Some c \<and> channel r' = Some ch
            \<and> filter attempt_or_wait (events w')
                = filter attempt_or_wait (events w)
                  @ concat (replicate (length fails) [AmqpConnect (rconfig r), SetTimeout (JNum d)])
                  @ [AmqpConnect (rconfig r)]
            \<and> filter library_call (events w')
                = filter library_call (events w)
                  @ concat (map (calls_of r) (fails @ [Succeeds c ch])))
       \<and> (\<exists>r' w'. connect e r (concat (map replies_of fails)) w
                    = (AwaitConnect (length fails), r', w')
            \<and> \<not> isConnected r'
            \<and> filter attempt_or_wait (events w')
                = filter attempt_or_wait (events w)
                  @ concat (replicate (length fails) [AmqpConnect (rconfig r), SetTimeout (JNum d)])
                  @ [AmqpConnect (rconfig r)]
            \<and> filter library_call (events w')
                = filter library_call (events w)
                  @ concat (map (calls_of r) fails) @ [AmqpConnect (rconfig r)])
       \<and> (\<exists>r' w'. connect e r (concat (map replies_of fails) @ [Fulfil c, Fulfil ch]) w
                    = (AwaitAssert (length fails), r', w')
            \<and> \<not> isConnected r')"
proof -
  let ?w0 = "emit (AmqpConnect (rconfig r)) w"
  have start: "connect_start r w = (AwaitConnect 0, r, ?w0)"
    using assms(1) by (simp add: connect_start_def loop_head_def)
  from failure_rounds [OF assms(3) assms(1) assms(2), of e 0 ?w0]
  obtain r1 w1 where 1: "run e (AwaitConnect 0) (concat (map replies_of fails)) r ?w0
             = (AwaitConnect (length fails), r1, w1)"
    and c1: "\<not> isConnected r1"
    and g1: "rconfig r1 = rconfig r" and q1: "queue r1 = queue r"
    and e1: "filter attempt_or_wait (events w1)
               = filter attempt_or_wait (events ?w0)
                 @ concat (replicate (length fails) [SetTimeout (retryDelay r), AmqpConnect (rconfig r)])"
    and l1: "filter library_call (events w1)
               = filter library_call (events ?w0)
                 @ tl (concat (map (calls_of r) fails) @ [AmqpConnect (rconfig r)])"
    by auto
  have ev1: "filter attempt_or_wait (events w1)
      = filter attempt_or_wait (events w)
        @ concat (replicate (length fails) [AmqpConnect (rconfig r), SetTimeout (JNum d)])
        @ [AmqpConnect (rconfig r)]"
    using shift_rounds [of "AmqpConnect (rconfig r)" "length fails" "SetTimeout (JNum d)"]
    by (simp add: e1 filter_emit assms(2))
  have lib1: "filter library_call (events w1)
      = filter library_call (events w) @ concat (map (calls_of r) fails) @ [AmqpConnect (rconfig r)]"
  proof -
    have "filter library_call (events w1)
        = filter library_call (events w)
          @ (AmqpConnect (rconfig r) # tl (concat (map (calls_of r) fails) @ [AmqpConnect (rconfig r)]))"
      by (simp add: l1 filter_emit)
    then show ?thesis using rounds_hd [of r fails] by simp
  qed
  from success_round [OF c1, of e "length fails" c ch w1]
  obtain r2 w2 where 2: "run e (AwaitConnect (length fails)) (replies_of (Succeeds c ch)) r1 w1
        = (Returned, r2, w2)"
    and c2: "isConnected r2" "connection r2 = Some c" "channel r2 = Some ch"
    and e2: "filter attempt_or_wait (events w2) = filter attempt_or_wait (events w1)"
    and l2: "events w2 = events w1 @ [CreateConfirmChannel c, AssertQueue ch (queue r1) True,
                 Console LogSink [Text ''RabbitMQ connected''], OnError c, OnClose c]"
    by blast
  have lib2: "filter library_call (events w2)
      = filter library_call (events w) @ concat (map (calls_of r) (fails @ [Succeeds c ch]))"
    by (simp add: l2 lib1 q1)
  from before_assertion [OF c1, of e "length fails" c ch w1]
  obtain r3 w3 where 3: "run e (AwaitConnect (length fails)) [Fulfil c, Fulfil ch] r1 w1
        = (AwaitAssert (length fails), r3, w3)"
    and c3: "\<not> isConnected r3"
    by blast
  have A: "connect e r (concat (map replies_of fails) @ replies_of (Succeeds c ch)) w = (Returned, r2, w2)"
    unfolding connect_def start using 2 by (simp add: run_append 1)
  have B: "connect e r (concat (map replies_of fails)) w = (AwaitConnect (length fails), r1, w1)"
    unfolding connect_def start by (simp add: 1)
  have C: "connect e r (concat (map replies_of fails) @ [Fulfil c, Fulfil ch]) w
      = (AwaitAssert (length fails), r3, w3)"
    unfolding connect_def start using 3 by (simp add: run_append 1)
  have first: "\<exists>r' w'. connect e r (concat (map replies_of fails) @ replies_of (Succeeds c ch)) w
                    = (Returned, r', w')
            \<and> isConnected r' \<and> connection r' = Some c \<and> channel r' = Some ch
            \<and> filter attempt_or_wait (events w')
                = filter attempt_or_wait (events w)
                  @ concat (replicate (length fails) [AmqpConnect (rconfig r), SetTimeout (JNum d)])
                  @ [AmqpConnect (rconfig r)]
            \<and> filter library_call (events w')
                = filter library_call (events w)
                  @ concat (map (calls_of r) (fails @ [Succeeds c ch]))"
    using A c2 e2 ev1 lib2 by (intro exI [of _ r2] exI [of _ w2] conjI) simp_all
  have second: "\<exists>r' w'. connect e r (concat (map replies_of fails)) w
                    = (AwaitConnect (length fails), r', w')
            \<and> \<not> isConnected r'
            \<and> filter attempt_or_wait (events w')
                = filter attempt_or_wait (events w)
                  @ concat (replicate (length fails) [AmqpConnect (rconfig r), SetTimeout (JNum d)])
                  @ [AmqpConnect (rconfig r)]
            \<and> filter library_call (events w')
                = filter library_call (events w)
                  @ concat (map (calls_of r) fails) @ [AmqpConnect (rconfig r)]"
    using B c1 ev1 lib1 by (intro exI [of _ r1] exI [of _ w1] conjI) simp_all
  have third: "\<exists>r' w'. connect e r (concat (map replies_of fails) @ [Fulfil c, Fulfil ch]) w
                    = (AwaitAssert (length fails), r', w')
            \<and> \<not> isConnected r'"
    using C c3 by (intro exI [of _ r3] exI [of _ w3] conjI) simp_all
  from first second third show ?thesis by (intro conjI)
qed

text \<open>The connected sample manager is what a first successful attempt leaves.\<close>

lemma connected_rabbit_reached:
  "fst (snd (connect sample_env fresh_rabbit (replies_of (Succeeds 1 2)) empty_world))
     = connected_rabbit"
  by (simp add: connect_def connect_start_def loop_head_def fresh_rabbit_def RabbitMQ_def
      connected_rabbit_def Let_def)

text \<open>
  Two failures and a success with the default delay: three attempts, two waits, and the
  queue asserted as durable in the second and third attempt.
\<close>

theorem connect_retries_until_success_witness:
  "(\<exists>r' w'. connect sample_env fresh_rabbit
               (concat (map replies_of [ConnectFails (JStr ''ECONNREFUSED''),
                                        AssertFails 1 2 (JStr ''NOT_FOUND'')])
                @ replies_of (Succeeds 3 4)) empty_world
             = (Returned, r', w')
        \<and> isConnected r' \<and> connection r' = Some 3 \<and> channel r' = Some 4
        \<and> filter attempt_or_wait (events w')
            = [AmqpConnect (rconfig fresh_rabbit), SetTimeout (JNum 1000),
               AmqpConnect (rconfig fresh_rabbit), SetTimeout (JNum 1000),
               AmqpConnect (rconfig fresh_rabbit)]
        \<and> filter library_call (events w')
            = [AmqpConnect (rconfig fresh_rabbit), SetTimeout (JNum 1000),
               AmqpConnect (rconfig fresh_rabbit), CreateConfirmChannel 1,
               AssertQueue 2 (JStr ''logs'') True, SetTimeout (JNum 1000),
               AmqpConnect (rconfig fresh_rabbit), CreateConfirmChannel 3,
               AssertQueue 4 (JStr ''logs'') True, OnError 3, OnClose 3])"
proof -
  have 1: "\<not> isConnected fresh_rabbit" and 2: "retryDelay fresh_rabbit = JNum 1000"
    and q: "queue fresh_rabbit = JStr ''logs''"
    by (simp_all add: fresh_rabbit_def RabbitMQ_def js_or_def)
  have 3: "\<forall>a \<in> set [ConnectFails (JStr ''ECONNREFUSED''), AssertFails 1 2 (JStr ''NOT_FOUND'')].
             is_failure a"
    by simp
  have 4: "filter attempt_or_wait (events empty_world) = []"
    "filter library_call (events empty_world) = []"
    by (simp_all add: empty_world_def)
  from connect_retries_until_success [OF 1 2 3, of sample_env 3 4 empty_world]
  show ?thesis
    unfolding 4 by (simp add: numeral_2_eq_2 2 q)
qed


section \<open>Concurrent invocations of \<^verbatim>\<open>connect\<close>\<close>

lemma active_loops_append:
  "active_loops (s\<lparr>tasks := tasks s @ [p]\<rparr>) = active_loops s + (if waiting p then 1 else 0)"
  by (simp add: active_loops_def)

text \<open>
  Claim C2, as the code has it. The only guard is the connected flag. An invocation of
  \<^verbatim>\<open>connect()\<close> on a connected manager starts nothing and attempts nothing; an
  invocation on a manager that is not connected, whether idle or already retrying, starts
  a retry loop of its own and makes a connection attempt at once. A loop that wakes from
  its delay when the manager has meanwhile been connected returns without another attempt.
\<close>

theorem call_connect_loops:
  "(isConnected (mgr s) \<longrightarrow>
      active_loops (call_connect s) = active_loops s
      \<and> attempts (call_connect s) = attempts s
      \<and> mgr (call_connect s) = mgr s \<and> wld (call_connect s) = wld s)
   \<and> (\<not> isConnected (mgr s) \<longrightarrow>
      active_loops (call_connect s) = active_loops s + 1
      \<and> attempts (call_connect s) = attempts s + 1)
   \<and> (isConnected (mgr s) \<longrightarrow> resume e (AwaitTimer n) x (mgr s) (wld s) = (Returned, mgr s, wld s))"
  by (simp add: call_connect_def connect_start_def loop_head_def active_loops_def attempts_def
      emit_def)

text \<open>
  Claim C2 as stated fails. A connected manager loses its connection and amqplib emits
  \<^verbatim>\<open>'error'\<close> and then \<^verbatim>\<open>'close'\<close>: after the first event one loop is retrying and two
  attempts have been made in all, after the second event two loops are retrying at once
  and a third attempt has been made.
\<close>

theorem two_retry_loops:
  "map_option active_loops (exec sample_env connection_lost initial_system) = Some 1
   \<and> map_option attempts (exec sample_env connection_lost initial_system) = Some 2
   \<and> map_option active_loops (exec sample_env (connection_lost @ [CloseEvent 1]) initial_system) = Some 2
   \<and> map_option attempts (exec sample_env (connection_lost @ [CloseEvent 1]) initial_system) = Some 3"
  by (simp add: connection_lost_def initial_system_def fresh_rabbit_def RabbitMQ_def js_or_def
      call_connect_def connect_start_def loop_head_def emit_def empty_world_def Let_def
      active_loops_def attempts_def)

text \<open>An invocation on a fresh manager, and one on a connected manager.\<close>

theorem call_connect_loops_witness:
  "active_loops (call_connect initial_system) = active_loops initial_system + 1
   \<and> attempts (call_connect initial_system) = attempts initial_system + 1
   \<and> active_loops (call_connect (initial_system\<lparr>mgr := connected_rabbit\<rparr>))
       = active_loops (initial_system\<lparr>mgr := connected_rabbit\<rparr>)
   \<and> attempts (call_connect (initial_system\<lparr>mgr := connected_rabbit\<rparr>))
       = attempts (initial_system\<lparr>mgr := connected_rabbit\<rparr>)"
proof -
  have 1: "\<not> isConnected (mgr initial_system)"
    by (simp add: initial_system_def fresh_rabbit_def RabbitMQ_def)
  have 2: "isConnected (mgr (initial_system\<lparr>mgr := connected_rabbit\<rparr>))"
    by (simp add: connected_rabbit_def)
  from call_connect_loops [of initial_system sample_env 0 "Fulfil 0"] 1
    call_connect_loops [of "initial_system\<lparr>mgr := connected_rabbit\<rparr>" sample_env 0 "Fulfil 0"] 2
  show ?thesis by blast
qed


section \<open>Properties of the error reporters\<close>

lemma keeps_refl: "keeps n w w"
  by (simp add: keeps_def)

lemma keeps_trans: "keeps n w1 w2 \<Longrightarrow> keeps n w2 w3 \<Longrightarrow> keeps n w1 w3"
  by (simp add: keeps_def)

lemma keeps_emit: "keeps n w (emit ev w)"
  by (simp add: keeps_def emit_def)

lemma keeps_emit': "keeps n w w' \<Longrightarrow> keeps n w (emit ev w')"
  by (simp add: keeps_def emit_def)

lemma keeps_alloc: "n \<le> length (heap w) \<Longrightarrow> keeps n w (snd (alloc ob w))"
  by (simp add: keeps_def alloc_def)


lemma keeps_default_obj: "n \<le> length (heap w) \<Longrightarrow> keeps n w (snd (default_obj v w))"
  by (simp add: default_obj_def keeps_alloc keeps_refl)







lemma keeps_update_obj: "n \<le> a \<Longrightarrow> keeps n w (update_obj a f w)"
  by (simp add: keeps_def update_obj_def)


lemma keeps_appendErrAxiosData:
  assumes "n \<le> length (heap w)" and "\<forall>a. d = JRef a \<longrightarrow> n \<le> a"
  shows "keeps n w (snd (appendErrAxiosData err d w))"
proof -
  obtain data w1 where d: "default_obj d w = (data, w1)" by (cases "default_obj d w")
  from assms(1) have k1: "keeps n w w1" using keeps_default_obj [of n w d] by (simp add: d)
  have fresh: "\<forall>a. data = JRef a \<longrightarrow> n \<le> a"
    using assms d by (auto simp: default_obj_def alloc_def split: if_splits)
  have "keeps n w1 (snd (appendErrAxiosData err d w))"
    using fresh
    by (auto simp: appendErrAxiosData_def d keeps_refl keeps_update_obj Let_def
        split: jsval.splits)
  with k1 show ?thesis by (rule keeps_trans)
qed




















lemmas sample_defs = rejecting_env_def http_logger_def console_logger_def sample_env_def
  sample_config_def empty_world_def sample_error_def general_world_def api_world_def
  odd_kind_world_def unknown_kind_world_def plain_def

lemmas report_defs = report_def sendLog_def default_obj_def alloc_def emit_def Let_def
  getLogObject_def copy_prefixed_def for_in_def set_prop_def to_str_def get_prop_def
  ALERT_def ERROR_def INFORMATIONAL_def

lemmas reporter_defs = reportGeneralError_def reportApiError_def report_with_context_def
  call_toString_def throwTypeError_def appendErrLocData_def stack_parts_def nth_opt_def
  update_obj_def getApiRequestData_def spread2_def

lemmas error_defs = error_fn_def dispatch_def errorReporters_def call_inherited_def



text \<open>
  Claim C1 at a transport whose promise is rejected with \<^verbatim>\<open>undefined\<close>: the handler
  fails on \<^verbatim>\<open>error.stack\<close> and the promise that \<^verbatim>\<open>report\<close> returned is never
  resolved.
\<close>

theorem report_stays_pending:
  "fst (report rejecting_env http_logger (JStr ''Disk full'') (JStr ''stack...'') JUndefined ERROR
          empty_world) = Pending"
  by (simp add: sample_defs report_defs)

text \<open>
  Claim C8 at an error whose kind is the name of an inherited member, and at \<^verbatim>\<open>null\<close>:
  for the kind \<^verbatim>\<open>toString\<close> the call returns normally and nothing is reported; for
  \<^verbatim>\<open>null\<close> the handler's own \<^verbatim>\<open>reportGeneralError(error, data)\<close> throws, out of
  \<^verbatim>\<open>error()\<close>.
\<close>

theorem error_unreported_or_thrown:
  "fst (error_fn sample_env console_logger (JRef 0) JUndefined odd_kind_world) = Inr ()
   \<and> filter reported (events (snd (error_fn sample_env console_logger (JRef 0) JUndefined
        odd_kind_world))) = []
   \<and> isl (fst (error_fn sample_env console_logger JNull JUndefined empty_world))"
  by (simp add: sample_defs report_defs reporter_defs error_defs)

text \<open>
  An error of a kind that no reporter and no inherited member is named after is reported
  twice through the generic path, at the level of generic errors: once itself, once the
  failure of the call.
\<close>

lemma error_unknown_kind_example:
  "fst (error_fn sample_env console_logger (JRef 0) JUndefined unknown_kind_world) = Inr ()
   \<and> map (\<lambda>ev. case ev of SendLog logObject \<Rightarrow> (lookup_prop logObject ''short_message'',
                                                  lookup_prop logObject ''level'')
                         | _ \<Rightarrow> (JUndefined, JUndefined))
        (filter reported (events (snd (error_fn sample_env console_logger (JRef 0) JUndefined
           unknown_kind_world))))
     = [(JStr ''Error: boom'', JNum 3),
        (JStr ''TypeError: this.errorReporters[error.errorType]'', JNum 3)]"
  by (simp add: sample_defs report_defs reporter_defs error_defs)

text \<open>
  What holds of \<^verbatim>\<open>report\<close> for every transport: its promise is never rejected, and
  with the console transport it is always resolved.
\<close>

lemma report_never_rejects: "fst (report e lg s f d l w) \<noteq> Rejected x"
  by (auto simp: report_def Let_def split: prod.splits promise.splits option.splits)

lemma report_console_resolves:
  "sendLogKind lg = ViaConsole \<Longrightarrow> fst (report e lg s f d l w) = Resolved"
  by (simp add: report_def sendLog_def Let_def split: prod.splits)


text \<open>
  With the HTTP transport, a request that fails with an error object that has a stack is
  written to \<^verbatim>\<open>console.error\<close> with \<open>data\<close>, and the promise is resolved.
\<close>

lemma report_failure_logged:
  assumes "sendLogKind lg = ViaHttp opts"
    and "axiosPost e (httpUrl (lconfig lg))
           (getLogObject e (heap w) (JStr s) (JStr f) (JRef d) (JNum l) (lconfig lg))
         = Rejected (JRef a)"
    and "get_prop (heap w) (JRef a) ''stack'' = JStr st"
  shows "fst (report e lg (JStr s) (JStr f) (JRef d) (JNum l) w) = Resolved
         \<and> last (events (snd (report e lg (JStr s) (JStr f) (JRef d) (JNum l) w)))
             = Console ErrorSink
                 [Text (''Cannot report error: '' @ s @ [CHR 0x0A, CHR 0x0A]
                        @ ''    Because of: '' @ st @ [CHR 0x0A, CHR 0x0A]
                        @ ''    Main error: '' @ f @ [CHR 0x0A, CHR 0x0A]
                        @ ''    Data: ''),
                  Val (JRef d)]"
proof -
  let ?obj = "getLogObject e (heap w) (JStr s) (JStr f) (JRef d) (JNum l) (lconfig lg)"
  have "''short_message'' \<notin> (\<lambda>d. ''_'' @ d) ` fst ` set (for_in (heap w) (JRef d))"
    and "''full_message'' \<notin> (\<lambda>d. ''_'' @ d) ` fst ` set (for_in (heap w) (JRef d))"
    by auto
  then have "map_of ?obj ''short_message'' = Some (JStr s)"
    and "map_of ?obj ''full_message'' = Some (JStr f)"
    by (simp_all add: getLogObject_other_key getLogObject_no_data)
  then have sm: "lookup_prop ?obj ''short_message'' = JStr s"
    and fm: "lookup_prop ?obj ''full_message'' = JStr f"
    by (simp_all add: lookup_prop_map_of)
  show ?thesis
    using assms
    by (simp add: report_def sendLog_def default_obj_def Let_def emit_def to_str_def sm fm)
qed

end
